theory Spec2Isabelle
  imports Main "HOL-Library.Word"
begin

section \<open>JavaScript strings\<close>

text \<open>
  A JavaScript string is a sequence of 16-bit code units. String literals of the
  source are ASCII and are written with \<open>lit\<close>.
\<close>

type_synonym js_string = "16 word list"

definition lit :: "string \<Rightarrow> js_string" where
  "lit s = map of_char s"

text \<open>\<^verbatim>\<open>s.startsWith(p)\<close>\<close>

definition startsWith :: "js_string \<Rightarrow> js_string \<Rightarrow> bool" where
  "startsWith s p = (take (length p) s = p)"

text \<open>
  The decimal rendering of a non-negative integer, as a template literal
  \<^verbatim>\<open>${n}\<close> produces it for an array length.
\<close>

definition digit :: "nat \<Rightarrow> 16 word" where
  "digit d = of_nat (48 + d)"

fun decimal :: "nat \<Rightarrow> js_string" where
  "decimal n = (if n < 10 then [digit n] else decimal (n div 10) @ [digit (n mod 10)])"

declare decimal.simps [simp del]

text \<open>
  ECMAScript \<^verbatim>\<open>WhiteSpace\<close> and \<^verbatim>\<open>LineTerminator\<close> code units: what
  \<^verbatim>\<open>String.prototype.trim\<close> strips from both ends.
\<close>

definition isWhiteSpace :: "16 word \<Rightarrow> bool" where
  "isWhiteSpace c =
     (c = 0x0009 \<or> c = 0x000A \<or> c = 0x000B \<or> c = 0x000C \<or> c = 0x000D \<or> c = 0x0020
      \<or> c = 0x00A0 \<or> c = 0x1680 \<or> (0x2000 \<le> c \<and> c \<le> 0x200A) \<or> c = 0x2028
      \<or> c = 0x2029 \<or> c = 0x202F \<or> c = 0x205F \<or> c = 0x3000 \<or> c = 0xFEFF)"

definition trim :: "js_string \<Rightarrow> js_string" where
  "trim s = rev (dropWhile isWhiteSpace (rev (dropWhile isWhiteSpace s)))"

section \<open>The database schema (the migration)\<close>

text \<open>
  SQL values are nullable: a column holds \<open>None\<close> for \<^verbatim>\<open>NULL\<close>. \<^verbatim>\<open>JSONB\<close> columns
  hold a JSON value, \<^verbatim>\<open>TIMESTAMPTZ\<close> columns a point of time as a natural number,
  \<^verbatim>\<open>UUID\<close> columns a natural number, the \<^verbatim>\<open>INTEGER\<close> column a 32-bit word
  read as a signed number (\<open>sint\<close>), and the \<^verbatim>\<open>DECIMAL(10,4)\<close> column a number of
  ten-thousandths of at most ten digits.
\<close>

datatype json =
    JObject "(js_string \<times> json) list"
  | JArray "json list"
  | JString js_string
  | JNumber int
  | JBool bool
  | JNull

typedef numeric_10_4 = "{c :: int. - (10 ^ 10) < c \<and> c < 10 ^ 10}"
  morphisms ten_thousandths Numeric
  by (rule exI [of _ 0]) simp

setup_lifting type_definition_numeric_10_4

text \<open>
  The \<^verbatim>\<open>DECIMAL(10,4)\<close> value of a number of ten-thousandths that fits (and zero for
  one that does not), and equality of such values.
\<close>

lift_definition numeric :: "int \<Rightarrow> numeric_10_4" is
  "\<lambda>c. if - (10 ^ 10) < c \<and> c < 10 ^ 10 then c else 0"
  by simp

instantiation numeric_10_4 :: equal
begin

definition equal_numeric_10_4 :: "numeric_10_4 \<Rightarrow> numeric_10_4 \<Rightarrow> bool" where
  "equal_numeric_10_4 a b = (ten_thousandths a = ten_thousandths b)"

instance
  by standard (simp add: equal_numeric_10_4_def ten_thousandths_inject)

end

text \<open>\<^verbatim>\<open>CREATE TABLE public.users\<close>\<close>

record user_row =
  u_id :: "js_string option"
  u_email :: "js_string option"
  u_name :: "js_string option"
  u_ai_provider :: "js_string option"
  u_ai_api_key_encrypted :: "js_string option"
  u_ebay_app_id :: "js_string option"
  u_ebay_cert_id :: "js_string option"
  u_ebay_dev_id :: "js_string option"
  u_ebay_refresh_token :: "js_string option"
  u_preferences :: "json option"
  u_usage_stats :: "json option"
  u_created_at :: "nat option"
  u_updated_at :: "nat option"

text \<open>\<^verbatim>\<open>CREATE TABLE public.listings\<close>\<close>

record listing_row =
  l_id :: "nat option"
  l_user_id :: "js_string option"
  l_title :: "js_string option"
  l_description :: "js_string option"
  l_category :: "js_string option"
  l_condition :: "js_string option"
  l_estimated_price :: "js_string option"
  l_brand :: "js_string option"
  l_item_type :: "js_string option"
  l_material :: "js_string option"
  l_color :: "js_string option"
  l_country_of_manufacture :: "js_string option"
  l_image_urls :: "json option"
  l_user_message :: "js_string option"
  l_ai_provider :: "js_string option"
  l_ai_generated :: "bool option"
  l_status :: "js_string option"
  l_ebay_listing_id :: "js_string option"
  l_created_at :: "nat option"
  l_updated_at :: "nat option"

text \<open>\<^verbatim>\<open>CREATE TABLE public.ai_usage\<close>\<close>

record ai_usage_row =
  a_id :: "nat option"
  a_user_id :: "js_string option"
  a_provider :: "js_string option"
  a_model :: "js_string option"
  a_tokens_used :: "32 word option"
  a_cost :: "numeric_10_4 option"
  a_request_type :: "js_string option"
  a_success :: "bool option"
  a_error_message :: "js_string option"
  a_created_at :: "nat option"

record db =
  users :: "user_row list"
  listings :: "listing_row list"
  ai_usage :: "ai_usage_row list"

text \<open>
  What an \<^verbatim>\<open>INSERT\<close> says about one column: nothing (the column's \<^verbatim>\<open>DEFAULT\<close>
  applies, \<^verbatim>\<open>NULL\<close> when it has none), an explicit \<^verbatim>\<open>NULL\<close>, or a value.
\<close>

datatype 'a col = Omitted | Null | Val 'a

definition resolve :: "'a option \<Rightarrow> 'a col \<Rightarrow> 'a option" where
  "resolve dflt c = (case c of Omitted \<Rightarrow> dflt | Null \<Rightarrow> None | Val v \<Rightarrow> Some v)"

record user_insert =
  ui_id :: "js_string col"
  ui_email :: "js_string col"
  ui_name :: "js_string col"
  ui_ai_provider :: "js_string col"
  ui_ai_api_key_encrypted :: "js_string col"
  ui_ebay_app_id :: "js_string col"
  ui_ebay_cert_id :: "js_string col"
  ui_ebay_dev_id :: "js_string col"
  ui_ebay_refresh_token :: "js_string col"
  ui_preferences :: "json col"
  ui_usage_stats :: "json col"
  ui_created_at :: "nat col"
  ui_updated_at :: "nat col"

record listing_insert =
  li_id :: "nat col"
  li_user_id :: "js_string col"
  li_title :: "js_string col"
  li_description :: "js_string col"
  li_category :: "js_string col"
  li_condition :: "js_string col"
  li_estimated_price :: "js_string col"
  li_brand :: "js_string col"
  li_item_type :: "js_string col"
  li_material :: "js_string col"
  li_color :: "js_string col"
  li_country_of_manufacture :: "js_string col"
  li_image_urls :: "json col"
  li_user_message :: "js_string col"
  li_ai_provider :: "js_string col"
  li_ai_generated :: "bool col"
  li_status :: "js_string col"
  li_ebay_listing_id :: "js_string col"
  li_created_at :: "nat col"
  li_updated_at :: "nat col"

record ai_usage_insert =
  ai_id :: "nat col"
  ai_user_id :: "js_string col"
  ai_provider :: "js_string col"
  ai_model :: "js_string col"
  ai_tokens_used :: "32 word col"
  ai_cost :: "numeric_10_4 col"
  ai_request_type :: "js_string col"
  ai_success :: "bool col"
  ai_error_message :: "js_string col"
  ai_created_at :: "nat col"

datatype pg_error =
    PolicyViolation string
  | NotNullViolation string
  | UniqueViolation string
  | ForeignKeyViolation string
  | InvalidText string
  | NumericValueOutOfRange string

subsection \<open>Row-level security\<close>

text \<open>
  The identity a request is made for: the user identifier the client session holds,
  if any. A policy is a predicate on the requester and the row.
\<close>

type_synonym requester = "js_string option"

text \<open>\<^verbatim>\<open>CREATE POLICY "Users can manage their own data" ON users FOR ALL USING (true)\<close>\<close>

definition users_policy :: "requester \<Rightarrow> user_row \<Rightarrow> bool" where
  "users_policy req r = True"

text \<open>\<^verbatim>\<open>CREATE POLICY "Users can manage their own listings" ON listings FOR ALL USING (true)\<close>\<close>

definition listings_policy :: "requester \<Rightarrow> listing_row \<Rightarrow> bool" where
  "listings_policy req r = True"

text \<open>\<^verbatim>\<open>CREATE POLICY "Users can manage their own AI usage" ON ai_usage FOR ALL USING (true)\<close>\<close>

definition ai_usage_policy :: "requester \<Rightarrow> ai_usage_row \<Rightarrow> bool" where
  "ai_usage_policy req r = True"

text \<open>
  A table with row-level security enabled and one permissive policy \<open>pol\<close> for all
  commands: a statement sees and touches only the rows that satisfy \<open>pol\<close>, and a
  row it writes must satisfy \<open>pol\<close> too (with no \<^verbatim>\<open>WITH CHECK\<close> the \<^verbatim>\<open>USING\<close>
  expression is the check).
\<close>

definition rls_select ::
  "(requester \<Rightarrow> 'r \<Rightarrow> bool) \<Rightarrow> requester \<Rightarrow> ('r \<Rightarrow> bool) \<Rightarrow> 'r list \<Rightarrow> 'r list" where
  "rls_select pol req wh rows = filter (\<lambda>r. pol req r \<and> wh r) rows"

definition rls_delete ::
  "(requester \<Rightarrow> 'r \<Rightarrow> bool) \<Rightarrow> requester \<Rightarrow> ('r \<Rightarrow> bool) \<Rightarrow> 'r list \<Rightarrow> 'r list" where
  "rls_delete pol req wh rows = filter (\<lambda>r. \<not> (pol req r \<and> wh r)) rows"

definition rls_update ::
  "(requester \<Rightarrow> 'r \<Rightarrow> bool) \<Rightarrow> requester \<Rightarrow> ('r \<Rightarrow> bool) \<Rightarrow> ('r \<Rightarrow> 'r) \<Rightarrow> 'r list
     \<Rightarrow> pg_error + 'r list" where
  "rls_update pol req wh upd rows =
     (if list_ex (\<lambda>r. pol req r \<and> wh r \<and> \<not> pol req (upd r)) rows
      then Inl (PolicyViolation ''update'')
      else Inr (map (\<lambda>r. if pol req r \<and> wh r then upd r else r) rows))"

definition rls_insert ::
  "(requester \<Rightarrow> 'r \<Rightarrow> bool) \<Rightarrow> requester \<Rightarrow> 'r \<Rightarrow> 'r list \<Rightarrow> pg_error + 'r list" where
  "rls_insert pol req r rows =
     (if pol req r then Inr (rows @ [r]) else Inl (PolicyViolation ''insert''))"

subsection \<open>Inserting rows\<close>

text \<open>
  The inserts of this subsection are the statements on values the database has
  taken in; what a request's strings and numbers must satisfy to be taken in
  comes after them.
\<close>

text \<open>
  \<^verbatim>\<open>gen_random_uuid()\<close>: identifiers are natural numbers here, and the generated one
  is an identifier the table does not hold.
\<close>

definition gen_random_uuid :: "nat option list \<Rightarrow> nat" where
  "gen_random_uuid taken = Suc (fold (\<lambda>x m. case x of None \<Rightarrow> m | Some n \<Rightarrow> max n m) taken 0)"

text \<open>
  \<^verbatim>\<open>INSERT INTO users\<close> at time \<open>now\<close>: column defaults, the policy check, the primary
  key (not null, unique).
\<close>

definition user_of_insert :: "nat \<Rightarrow> user_insert \<Rightarrow> user_row" where
  "user_of_insert now p =
     \<lparr>u_id = resolve None (ui_id p),
      u_email = resolve None (ui_email p),
      u_name = resolve None (ui_name p),
      u_ai_provider = resolve None (ui_ai_provider p),
      u_ai_api_key_encrypted = resolve None (ui_ai_api_key_encrypted p),
      u_ebay_app_id = resolve None (ui_ebay_app_id p),
      u_ebay_cert_id = resolve None (ui_ebay_cert_id p),
      u_ebay_dev_id = resolve None (ui_ebay_dev_id p),
      u_ebay_refresh_token = resolve None (ui_ebay_refresh_token p),
      u_preferences = resolve (Some (JObject [])) (ui_preferences p),
      u_usage_stats = resolve (Some (JObject [])) (ui_usage_stats p),
      u_created_at = resolve (Some now) (ui_created_at p),
      u_updated_at = resolve (Some now) (ui_updated_at p)\<rparr>"

definition insert_user :: "requester \<Rightarrow> nat \<Rightarrow> user_insert \<Rightarrow> db \<Rightarrow> pg_error + user_row \<times> db" where
  "insert_user req now p d =
     (let row = user_of_insert now p in
      if \<not> users_policy req row then Inl (PolicyViolation ''users'')
      else if u_id row = None then Inl (NotNullViolation ''users.id'')
      else if u_id row \<in> set (map u_id (users d)) then Inl (UniqueViolation ''users_pkey'')
      else Inr (row, d\<lparr>users := users d @ [row]\<rparr>))"

text \<open>
  \<^verbatim>\<open>INSERT INTO listings\<close>: defaults, the policy check, \<^verbatim>\<open>title NOT NULL\<close>, the
  primary key, and the foreign key of \<^verbatim>\<open>user_id\<close> (checked only when it is not
  \<^verbatim>\<open>NULL\<close>).
\<close>

definition listing_of_insert :: "nat \<Rightarrow> nat \<Rightarrow> listing_insert \<Rightarrow> listing_row" where
  "listing_of_insert now uuid p =
     \<lparr>l_id = resolve (Some uuid) (li_id p),
      l_user_id = resolve None (li_user_id p),
      l_title = resolve None (li_title p),
      l_description = resolve None (li_description p),
      l_category = resolve None (li_category p),
      l_condition = resolve None (li_condition p),
      l_estimated_price = resolve None (li_estimated_price p),
      l_brand = resolve None (li_brand p),
      l_item_type = resolve None (li_item_type p),
      l_material = resolve None (li_material p),
      l_color = resolve None (li_color p),
      l_country_of_manufacture = resolve None (li_country_of_manufacture p),
      l_image_urls = resolve (Some (JArray [])) (li_image_urls p),
      l_user_message = resolve None (li_user_message p),
      l_ai_provider = resolve None (li_ai_provider p),
      l_ai_generated = resolve (Some True) (li_ai_generated p),
      l_status = resolve (Some (lit ''draft'')) (li_status p),
      l_ebay_listing_id = resolve None (li_ebay_listing_id p),
      l_created_at = resolve (Some now) (li_created_at p),
      l_updated_at = resolve (Some now) (li_updated_at p)\<rparr>"

definition insert_listing ::
  "requester \<Rightarrow> nat \<Rightarrow> listing_insert \<Rightarrow> db \<Rightarrow> pg_error + listing_row \<times> db" where
  "insert_listing req now p d =
     (let row = listing_of_insert now (gen_random_uuid (map l_id (listings d))) p in
      if \<not> listings_policy req row then Inl (PolicyViolation ''listings'')
      else if l_id row = None then Inl (NotNullViolation ''listings.id'')
      else if l_title row = None then Inl (NotNullViolation ''listings.title'')
      else if l_id row \<in> set (map l_id (listings d)) then Inl (UniqueViolation ''listings_pkey'')
      else if l_user_id row \<noteq> None \<and> l_user_id row \<notin> set (map u_id (users d))
        then Inl (ForeignKeyViolation ''listings_user_id_fkey'')
      else Inr (row, d\<lparr>listings := listings d @ [row]\<rparr>))"

text \<open>\<^verbatim>\<open>INSERT INTO ai_usage\<close>: as for listings, with \<^verbatim>\<open>provider NOT NULL\<close>.\<close>

definition ai_usage_of_insert :: "nat \<Rightarrow> nat \<Rightarrow> ai_usage_insert \<Rightarrow> ai_usage_row" where
  "ai_usage_of_insert now uuid p =
     \<lparr>a_id = resolve (Some uuid) (ai_id p),
      a_user_id = resolve None (ai_user_id p),
      a_provider = resolve None (ai_provider p),
      a_model = resolve None (ai_model p),
      a_tokens_used = resolve (Some 0) (ai_tokens_used p),
      a_cost = resolve (Some (numeric 0)) (ai_cost p),
      a_request_type = resolve None (ai_request_type p),
      a_success = resolve (Some True) (ai_success p),
      a_error_message = resolve None (ai_error_message p),
      a_created_at = resolve (Some now) (ai_created_at p)\<rparr>"

definition insert_ai_usage ::
  "requester \<Rightarrow> nat \<Rightarrow> ai_usage_insert \<Rightarrow> db \<Rightarrow> pg_error + ai_usage_row \<times> db" where
  "insert_ai_usage req now p d =
     (let row = ai_usage_of_insert now (gen_random_uuid (map a_id (ai_usage d))) p in
      if \<not> ai_usage_policy req row then Inl (PolicyViolation ''ai_usage'')
      else if a_id row = None then Inl (NotNullViolation ''ai_usage.id'')
      else if a_provider row = None then Inl (NotNullViolation ''ai_usage.provider'')
      else if a_id row \<in> set (map a_id (ai_usage d)) then Inl (UniqueViolation ''ai_usage_pkey'')
      else if a_user_id row \<noteq> None \<and> a_user_id row \<notin> set (map u_id (users d))
        then Inl (ForeignKeyViolation ''ai_usage_user_id_fkey'')
      else Inr (row, d\<lparr>ai_usage := ai_usage d @ [row]\<rparr>))"

text \<open>
  Referential integrity, which the two foreign keys maintain: every non-null
  \<^verbatim>\<open>user_id\<close> is the identifier of a user row.
\<close>

definition fk_consistent :: "db \<Rightarrow> bool" where
  "fk_consistent d =
     (list_all (\<lambda>r. l_user_id r = None \<or> l_user_id r \<in> set (map u_id (users d))) (listings d)
      \<and> list_all (\<lambda>r. a_user_id r = None \<or> a_user_id r \<in> set (map u_id (users d))) (ai_usage d))"

text \<open>
  \<^verbatim>\<open>DELETE FROM users WHERE id = uid\<close>: the user rows the policy shows are removed,
  and \<^verbatim>\<open>ON DELETE CASCADE\<close> removes the listings and usage records that reference a
  removed user row.
\<close>

definition delete_user_rows :: "requester \<Rightarrow> js_string \<Rightarrow> db \<Rightarrow> db" where
  "delete_user_rows req uid d =
     (let deleted = map u_id (rls_select users_policy req (\<lambda>r. u_id r = Some uid) (users d)) in
      d\<lparr>users := rls_delete users_policy req (\<lambda>r. u_id r = Some uid) (users d),
        listings := filter (\<lambda>r. l_user_id r = None \<or> l_user_id r \<notin> set deleted) (listings d),
        ai_usage := filter (\<lambda>r. a_user_id r = None \<or> a_user_id r \<notin> set deleted) (ai_usage d)\<rparr>)"

subsection \<open>Requests\<close>

text \<open>
  A request carries JavaScript strings and numbers. Before its statement runs the
  database takes every string in as \<^verbatim>\<open>TEXT\<close> or as part of a \<^verbatim>\<open>JSONB\<close> value
  and every number as a value of its column's type, and it refuses the statement
  when one of them cannot be taken in. Which strings it can hold is not declared
  in the migration (PostgreSQL refuses the code unit 0, for one): it is the
  parameter \<open>storable\<close>.
\<close>

fun json_storable :: "(js_string \<Rightarrow> bool) \<Rightarrow> json \<Rightarrow> bool" where
  "json_storable storable (JObject kvs) =
     list_all (\<lambda>kv. storable (fst kv) \<and> json_storable storable (snd kv)) kvs"
| "json_storable storable (JArray vs) = list_all (json_storable storable) vs"
| "json_storable storable (JString s) = storable s"
| "json_storable storable (JNumber n) = True"
| "json_storable storable (JBool b) = True"
| "json_storable storable JNull = True"

definition col_storable :: "('a \<Rightarrow> bool) \<Rightarrow> 'a col \<Rightarrow> bool" where
  "col_storable ok c = (case c of Val v \<Rightarrow> ok v | Omitted \<Rightarrow> True | Null \<Rightarrow> True)"

definition user_text_ok :: "(js_string \<Rightarrow> bool) \<Rightarrow> user_insert \<Rightarrow> bool" where
  "user_text_ok storable p =
     (col_storable storable (ui_id p) \<and> col_storable storable (ui_email p)
      \<and> col_storable storable (ui_name p) \<and> col_storable storable (ui_ai_provider p)
      \<and> col_storable storable (ui_ai_api_key_encrypted p)
      \<and> col_storable storable (ui_ebay_app_id p) \<and> col_storable storable (ui_ebay_cert_id p)
      \<and> col_storable storable (ui_ebay_dev_id p)
      \<and> col_storable storable (ui_ebay_refresh_token p)
      \<and> col_storable (json_storable storable) (ui_preferences p)
      \<and> col_storable (json_storable storable) (ui_usage_stats p))"



definition request_insert_user ::
  "(js_string \<Rightarrow> bool) \<Rightarrow> requester \<Rightarrow> nat \<Rightarrow> user_insert \<Rightarrow> db \<Rightarrow> pg_error + user_row \<times> db" where
  "request_insert_user storable req now p d =
     (if user_text_ok storable p then insert_user req now p d else Inl (InvalidText ''users''))"





section \<open>Files and upload requests\<close>

text \<open>A browser \<^verbatim>\<open>File\<close>: the three properties \<^verbatim>\<open>handleFiles\<close> reads.\<close>

record js_file =
  file_name :: js_string
  file_type :: js_string
  file_size :: nat

datatype endpoint = UploadDraftImage | UploadImage

text \<open>
  The \<^verbatim>\<open>FormData\<close> of one upload request: the file, and the \<^verbatim>\<open>user_id\<close>
  field when the component appends one.
\<close>

record form_data =
  fd_image :: js_file
  fd_user_id :: "js_string option"

text \<open>
  What \<^verbatim>\<open>await fetch(...)\<close> followed by \<^verbatim>\<open>await response.json()\<close> gives:
  \<open>Threw\<close> when either promise rejects or the body is \<^verbatim>\<open>null\<close> (the property
  access on it throws); otherwise \<^verbatim>\<open>response.ok\<close>, \<^verbatim>\<open>data.filename\<close> and
  \<^verbatim>\<open>data.error\<close> (\<open>None\<close> for \<^verbatim>\<open>undefined\<close>).
\<close>

datatype fetch_outcome = Threw | Replied bool "js_string option" "js_string option"

section \<open>Effects of the components\<close>

text \<open>
  What a handler of a component does that can be observed, in the order it happens:
  toasts, state setters, callbacks, requests to the backend and statements sent to
  the database.
\<close>

datatype logged = Unknown | Message js_string | Postgres pg_error

datatype event =
    ToastError js_string
  | ToastSuccess js_string
  | SetUploading bool
  | SetIsLoading bool
  | Fetch endpoint form_data
  | OnImageUpload "js_string option"
  | AppendUploadedImage "js_string option"
  | OnUserCreated js_string
  | SelectUserId js_string
  | InsertUser user_insert
  | SelectListings js_string
  | SetListings "listing_row list"
  | ConsoleError logged
  | RefetchDrafts

text \<open>
  What becomes of one awaited request to the database: it is answered; or the
  client resolves it with an error object and no data, the statement having had no
  effect; or its promise is rejected.
\<close>

datatype awaited = Answered | Errored | Rejected

section \<open>Image upload (the \<open>ImageUpload\<close> component)\<close>

text \<open>
  The backend behind the upload endpoints is not part of the component: it is a
  parameter, a function from its state and a request to a reply and its next state.
\<close>

type_synonym 'srv server = "'srv \<Rightarrow> endpoint \<Rightarrow> form_data \<Rightarrow> fetch_outcome \<times> 'srv"

text \<open>\<^verbatim>\<open>data.error || 'Upload failed'\<close>: the empty string and \<^verbatim>\<open>undefined\<close> are falsy.\<close>

definition errorOrDefault :: "js_string option \<Rightarrow> js_string" where
  "errorOrDefault e =
     (case e of None \<Rightarrow> lit ''Upload failed''
      | Some m \<Rightarrow> if m = [] then lit ''Upload failed'' else m)"

text \<open>
  One iteration of the \<^verbatim>\<open>for (const file of fileArray)\<close> loop of the draft
  uploader: the two \<^verbatim>\<open>continue\<close> branches, then the \<^verbatim>\<open>try\<close>/\<^verbatim>\<open>catch\<close>.
\<close>

definition uploadOne :: "'srv server \<Rightarrow> js_string \<Rightarrow> js_file \<Rightarrow> 'srv \<Rightarrow> event list \<times> 'srv" where
  "uploadOne srv userId f s =
     (if \<not> startsWith (file_type f) (lit ''image/'') then
        ([ToastError (file_name f @ lit '' is not an image file'')], s)
      else if file_size f > 10 * 1024 * 1024 then
        ([ToastError (file_name f @ lit '' is too large (max 10MB)'')], s)
      else
        let formData = \<lparr>fd_image = f, fd_user_id = Some userId\<rparr>;
            (reply, s') = srv s UploadDraftImage formData
        in (Fetch UploadDraftImage formData #
             (case reply of
                Threw \<Rightarrow>
                  [ConsoleError Unknown, ToastError (lit ''Failed to upload '' @ file_name f)]
              | Replied ok filename err \<Rightarrow>
                  if ok then
                    [OnImageUpload filename,
                     ToastSuccess (file_name f @ lit '' saved as draft'')]
                  else
                    [ConsoleError (Message (errorOrDefault err)),
                     ToastError (lit ''Failed to upload '' @ file_name f)]),
            s'))"

fun uploadAll :: "'srv server \<Rightarrow> js_string \<Rightarrow> js_file list \<Rightarrow> 'srv \<Rightarrow> event list \<times> 'srv" where
  "uploadAll srv userId [] s = ([], s)"
| "uploadAll srv userId (f # fs) s =
     (let (es, s1) = uploadOne srv userId f s;
          (es', s2) = uploadAll srv userId fs s1
      in (es @ es', s2))"

text \<open>
  \<^verbatim>\<open>handleFiles\<close> of the draft uploader. \<open>drafts\<close> is the list of the user's
  drafts the component holds (the data of its \<^verbatim>\<open>userDrafts\<close> query).
\<close>

definition handleFiles ::
  "'srv server \<Rightarrow> js_string \<Rightarrow> js_string list \<Rightarrow> js_file list \<Rightarrow> 'srv \<Rightarrow> event list \<times> 'srv" where
  "handleFiles srv userId drafts fileArray s =
     (if length drafts + length fileArray > 10 then
        ([ToastError
            (lit ''You can only have 10 draft images total. You have ''
             @ decimal (length drafts)
             @ lit '' drafts and are trying to add ''
             @ decimal (length fileArray)
             @ lit '' more.'')], s)
      else
        let (es, s') = uploadAll srv userId fileArray s
        in (SetUploading True # es @ [SetUploading False, RefetchDrafts], s'))"

text \<open>
  The earlier uploader (no staging area, no cap): the same two checks, the upload
  goes to the plain image endpoint without a user, and a stored file is appended to
  the component's \<^verbatim>\<open>uploadedImages\<close>.
\<close>

definition uploadOne_legacy :: "'srv server \<Rightarrow> js_file \<Rightarrow> 'srv \<Rightarrow> event list \<times> 'srv" where
  "uploadOne_legacy srv f s =
     (if \<not> startsWith (file_type f) (lit ''image/'') then
        ([ToastError (file_name f @ lit '' is not an image file'')], s)
      else if file_size f > 10 * 1024 * 1024 then
        ([ToastError (file_name f @ lit '' is too large (max 10MB)'')], s)
      else
        let formData = \<lparr>fd_image = f, fd_user_id = None\<rparr>;
            (reply, s') = srv s UploadImage formData
        in (Fetch UploadImage formData #
             (case reply of
                Threw \<Rightarrow>
                  [ConsoleError Unknown, ToastError (lit ''Failed to upload '' @ file_name f)]
              | Replied ok filename err \<Rightarrow>
                  if ok then [AppendUploadedImage filename, OnImageUpload filename]
                  else
                    [ConsoleError (Message (errorOrDefault err)),
                     ToastError (lit ''Failed to upload '' @ file_name f)]),
            s'))"

fun uploadAll_legacy :: "'srv server \<Rightarrow> js_file list \<Rightarrow> 'srv \<Rightarrow> event list \<times> 'srv" where
  "uploadAll_legacy srv [] s = ([], s)"
| "uploadAll_legacy srv (f # fs) s =
     (let (es, s1) = uploadOne_legacy srv f s;
          (es', s2) = uploadAll_legacy srv fs s1
      in (es @ es', s2))"

definition handleFiles_legacy :: "'srv server \<Rightarrow> js_file list \<Rightarrow> 'srv \<Rightarrow> event list \<times> 'srv" where
  "handleFiles_legacy srv fileArray s =
     (let (es, s') = uploadAll_legacy srv fileArray s
      in (SetUploading True # es @ [SetUploading False], s'))"

text \<open>The upload requests among a list of effects.\<close>

fun fetches :: "event list \<Rightarrow> form_data list" where
  "fetches [] = []"
| "fetches (Fetch ep fd # es) = fd # fetches es"
| "fetches (e # es) = fetches es"

section \<open>User setup (the \<open>UserSetup\<close> component)\<close>

text \<open>An \<^verbatim>\<open>INSERT\<close> that names no column.\<close>

definition no_user_columns :: user_insert where
  "no_user_columns =
     \<lparr>ui_id = Omitted, ui_email = Omitted, ui_name = Omitted, ui_ai_provider = Omitted,
      ui_ai_api_key_encrypted = Omitted, ui_ebay_app_id = Omitted, ui_ebay_cert_id = Omitted,
      ui_ebay_dev_id = Omitted, ui_ebay_refresh_token = Omitted, ui_preferences = Omitted,
      ui_usage_stats = Omitted, ui_created_at = Omitted, ui_updated_at = Omitted\<rparr>"

text \<open>\<^verbatim>\<open>.single()\<close>: the row when the query gives exactly one, otherwise no data.\<close>

definition single :: "'a list \<Rightarrow> 'a option" where
  "single rows = (case rows of [r] \<Rightarrow> Some r | _ \<Rightarrow> None)"

text \<open>
  \<^verbatim>\<open>handleCreateUser\<close>. \<open>userId\<close> is the text of the input field, \<open>req\<close> the
  identity of the session, \<open>now\<close> the time of the insert, \<open>link\<close> says what
  becomes of each request and \<open>storable\<close> what the database can hold. A lookup
  whose promise is rejected ends in the \<^verbatim>\<open>catch\<close> block; a lookup resolved with an
  error gives no data, and the handler goes on to the insert. An insert that is not
  answered, or that the database refuses, ends in a log entry and the failure
  toast, from the \<^verbatim>\<open>error\<close> branch or from the \<^verbatim>\<open>catch\<close> block. The \<^verbatim>\<open>finally\<close>
  block runs on every path after the guard.
\<close>

definition handleCreateUser ::
  "(js_string \<Rightarrow> bool) \<Rightarrow> (event \<Rightarrow> awaited) \<Rightarrow> requester \<Rightarrow> nat \<Rightarrow> js_string \<Rightarrow> db
     \<Rightarrow> event list \<times> db" where
  "handleCreateUser storable link req now userId d =
     (if trim userId = [] then
        ([ToastError (lit ''Please enter a user ID'')], d)
      else if link (SelectUserId (trim userId)) = Rejected then
        ([SetIsLoading True, SelectUserId (trim userId),
          ConsoleError Unknown,
          ToastError (lit ''Failed to create user account''),
          SetIsLoading False], d)
      else
        let existingUser =
              (if link (SelectUserId (trim userId)) = Answered then
                 single (map u_id
                   (rls_select users_policy req (\<lambda>r. u_id r = Some (trim userId)) (users d)))
               else None)
        in
        if existingUser \<noteq> None then
          ([SetIsLoading True, SelectUserId (trim userId),
            ToastSuccess (lit ''Welcome back, '' @ userId @ lit ''!''),
            OnUserCreated (trim userId),
            SetIsLoading False], d)
        else
          let p = no_user_columns
                    \<lparr>ui_id := Val (trim userId), ui_name := Val (trim userId),
                     ui_preferences := Val (JObject []), ui_usage_stats := Val (JObject [])\<rparr>
          in
          if link (InsertUser p) \<noteq> Answered then
            ([SetIsLoading True, SelectUserId (trim userId), InsertUser p,
              ConsoleError Unknown,
              ToastError (lit ''Failed to create user account''),
              SetIsLoading False], d)
          else
            case request_insert_user storable req now p d of
              Inl err \<Rightarrow>
                ([SetIsLoading True, SelectUserId (trim userId), InsertUser p,
                  ConsoleError (Postgres err),
                  ToastError (lit ''Failed to create user account''),
                  SetIsLoading False], d)
            | Inr (row, d') \<Rightarrow>
                let data = rls_select users_policy req (\<lambda>r. True) [row] in
                ([SetIsLoading True, SelectUserId (trim userId), InsertUser p]
                 @ (if data \<noteq> [] then
                      [ToastSuccess (lit ''Welcome, '' @ userId
                                      @ lit ''! Your account has been created.''),
                       OnUserCreated (trim userId)]
                    else [])
                 @ [SetIsLoading False], d'))"


section \<open>Listings of a user (the \<open>Dashboard\<close> component)\<close>

text \<open>
  \<^verbatim>\<open>.from('listings').select('*').eq('user_id', userId).order('created_at',
  { ascending: false })\<close>. A comparison with \<^verbatim>\<open>NULL\<close> is not true, so a row
  without a user is in no result; descending order puts \<^verbatim>\<open>NULL\<close> first.
\<close>

definition selectListingsByUser :: "requester \<Rightarrow> js_string \<Rightarrow> db \<Rightarrow> listing_row list" where
  "selectListingsByUser req userId d =
     (let rows = rls_select listings_policy req (\<lambda>r. l_user_id r = Some userId) (listings d)
      in filter (\<lambda>r. l_created_at r = None) rows
         @ rev (sort_key (\<lambda>r. the (l_created_at r)) (filter (\<lambda>r. l_created_at r \<noteq> None) rows)))"

definition loadListings :: "requester \<Rightarrow> js_string \<Rightarrow> db \<Rightarrow> event list" where
  "loadListings req userId d =
     [SelectListings userId, SetListings (selectListingsByUser req userId d), SetIsLoading False]"

section \<open>Operations of the backend\<close>

datatype api_error = NotFound | ValidationError js_string | ProviderError js_string js_string
  | StoreError pg_error

text \<open>
  Modelled from the spec: delete-user, the backend's user deletion, is not among the
  sources. It fails with \<open>NotFound\<close> for an unknown identifier and otherwise deletes
  the user row, which cascades as the schema declares.
\<close>

definition deleteUser :: "requester \<Rightarrow> js_string \<Rightarrow> db \<Rightarrow> api_error + db" where
  "deleteUser req uid d =
     (if rls_select users_policy req (\<lambda>r. u_id r = Some uid) (users d) = [] then Inl NotFound
      else Inr (delete_user_rows req uid d))"

text \<open>
  Modelled from the spec: listing the usage records of a user is not among the
  sources. Like the listing query it is scoped by the owning user identifier only.
\<close>

definition listAIUsage :: "requester \<Rightarrow> js_string \<Rightarrow> db \<Rightarrow> ai_usage_row list" where
  "listAIUsage req uid d =
     rls_select ai_usage_policy req (\<lambda>r. a_user_id r = Some uid) (ai_usage d)"




definition no_ai_usage_columns :: ai_usage_insert where
  "no_ai_usage_columns =
     \<lparr>ai_id = Omitted, ai_user_id = Omitted, ai_provider = Omitted, ai_model = Omitted,
      ai_tokens_used = Omitted, ai_cost = Omitted, ai_request_type = Omitted,
      ai_success = Omitted, ai_error_message = Omitted, ai_created_at = Omitted\<rparr>"

definition no_listing_columns :: listing_insert where
  "no_listing_columns =
     \<lparr>li_id = Omitted, li_user_id = Omitted, li_title = Omitted, li_description = Omitted,
      li_category = Omitted, li_condition = Omitted, li_estimated_price = Omitted,
      li_brand = Omitted, li_item_type = Omitted, li_material = Omitted, li_color = Omitted,
      li_country_of_manufacture = Omitted, li_image_urls = Omitted, li_user_message = Omitted,
      li_ai_provider = Omitted, li_ai_generated = Omitted, li_status = Omitted,
      li_ebay_listing_id = Omitted, li_created_at = Omitted, li_updated_at = Omitted\<rparr>"











section \<open>Stubs for concrete runs\<close>

text \<open>
  A backend that stores every file it is sent under the file's own name and counts
  the files it holds.
\<close>

definition storing_server :: "nat server" where
  "storing_server n ep fd = (Replied True (Some (file_name (fd_image fd))) None, Suc n)"

text \<open>
  A database that holds every string without the code unit 0, and a connection on
  which every request is answered.
\<close>

definition nul_free :: "js_string \<Rightarrow> bool" where
  "nul_free s = (0 \<notin> set s)"

definition answering :: "event \<Rightarrow> awaited" where
  "answering e = Answered"

text \<open>
  A small database: two users, a listing and a usage record of each, and a listing
  and a usage record that belong to no user.
\<close>

definition sample_db :: db where
  "sample_db =
     \<lparr>users =
        [user_of_insert 1 (no_user_columns\<lparr>ui_id := Val (lit ''u1'')\<rparr>),
         user_of_insert 2 (no_user_columns\<lparr>ui_id := Val (lit ''u2'')\<rparr>)],
      listings =
        [listing_of_insert 3 1
           (no_listing_columns\<lparr>li_user_id := Val (lit ''u1''), li_title := Val (lit ''Jacket'')\<rparr>),
         listing_of_insert 4 2
           (no_listing_columns\<lparr>li_user_id := Val (lit ''u2''), li_title := Val (lit ''Lamp'')\<rparr>),
         listing_of_insert 5 3 (no_listing_columns\<lparr>li_title := Val (lit ''Orphan'')\<rparr>)],
      ai_usage =
        [ai_usage_of_insert 6 1
           (no_ai_usage_columns\<lparr>ai_user_id := Val (lit ''u1''), ai_provider := Val (lit ''openai'')\<rparr>),
         ai_usage_of_insert 7 2
           (no_ai_usage_columns\<lparr>ai_user_id := Val (lit ''u2''), ai_provider := Val (lit ''gemini'')\<rparr>),
         ai_usage_of_insert 8 3 (no_ai_usage_columns\<lparr>ai_provider := Val (lit ''claude'')\<rparr>)]\<rparr>"




section \<open>Properties of strings\<close>

lemma lit_append: "lit (a @ b) = lit a @ lit b"
  by (simp add: lit_def)

lemma decimal_not_Nil: "decimal n \<noteq> []"
  by (subst decimal.simps) simp

lemma digit_inj: "a < 10 \<Longrightarrow> b < 10 \<Longrightarrow> digit a = digit b \<Longrightarrow> a = b"
  unfolding digit_def
  by (simp add: word_of_nat_eq_iff take_bit_eq_mod)

lemma decimal_inj: "decimal m = decimal n \<Longrightarrow> m = n"
proof (induction m arbitrary: n rule: decimal.induct)
  case (1 m)
  show ?case
  proof (cases "m < 10")
    case True
    show ?thesis
    proof (cases "n < 10")
      case n: True
      from "1.prems" True n have "digit m = digit n"
        by (simp add: decimal.simps [of m] decimal.simps [of n])
      with True n show ?thesis using digit_inj by blast
    next
      case n: False
      from "1.prems" True n have "decimal (n div 10) = []"
        by (simp add: decimal.simps [of m] decimal.simps [of n] Cons_eq_append_conv)
      then show ?thesis by (simp add: decimal_not_Nil)
    qed
  next
    case False
    show ?thesis
    proof (cases "n < 10")
      case n: True
      from "1.prems" False n have "decimal (m div 10) = []"
        by (simp add: decimal.simps [of m] decimal.simps [of n] append_eq_Cons_conv)
      then show ?thesis by (simp add: decimal_not_Nil)
    next
      case n: False
      from "1.prems" False n
      have e: "decimal (m div 10) = decimal (n div 10)" and d: "digit (m mod 10) = digit (n mod 10)"
        by (simp_all add: decimal.simps [of m] decimal.simps [of n])
      from "1.IH" [OF False e] have "m div 10 = n div 10" .
      moreover from d have "m mod 10 = n mod 10"
        by (intro digit_inj) simp_all
      ultimately show ?thesis
        by (metis div_mult_mod_eq)
    qed
  qed
qed

lemma decimal_10: "decimal 10 = lit ''10''"
  by (simp add: decimal.simps lit_def digit_def)

lemma decimal_1: "decimal (Suc 0) = lit ''1''"
  by (simp add: decimal.simps lit_def digit_def)

lemma decimal_digits: "set (decimal n) \<subseteq> digit ` {..<10}"
proof (induction n rule: decimal.induct)
  case (1 n)
  show ?case
  proof (cases "n < 10")
    case True
    then show ?thesis by (simp add: decimal.simps [of n])
  next
    case False
    have "n mod 10 < 10" by simp
    then have "digit (n mod 10) \<in> digit ` {..<10}" by blast
    with "1.IH" [OF False] False show ?thesis
      by (simp add: decimal.simps [of n])
  qed
qed

lemma space_not_digit: "(32 :: 16 word) \<notin> digit ` {..<10}"
proof
  assume "(32 :: 16 word) \<in> digit ` {..<10}"
  then obtain d where d: "d < 10" and "(32 :: 16 word) = digit d" by auto
  then have "(of_nat 32 :: 16 word) = of_nat (48 + d)" by (simp add: digit_def)
  with d show False
    by (simp add: word_of_nat_eq_iff take_bit_eq_mod del: of_nat_numeral of_nat_add)
qed

lemma delimited_eq:
  assumes "set xs \<subseteq> D" and "set xs' \<subseteq> D" and "y \<notin> D"
      and "xs @ y # ys = xs' @ y # ys'"
  shows "xs = xs' \<and> ys = ys'"
  using assms
proof (induction xs arbitrary: xs')
  case Nil
  then show ?case by (cases xs') auto
next
  case (Cons a xs)
  then show ?case by (cases xs') auto
qed

lemma capacity_message_names_counts:
  assumes "lit ''You can only have 10 draft images total. You have '' @ decimal m
             @ lit '' drafts and are trying to add '' @ decimal n @ lit '' more.''
           = lit ''You can only have 10 draft images total. You have '' @ decimal m'
             @ lit '' drafts and are trying to add '' @ decimal n' @ lit '' more.''"
  shows "m = m' \<and> n = n'"
proof -
  have b: "lit '' drafts and are trying to add '' = 32 # lit ''drafts and are trying to add ''"
    and c: "lit '' more.'' = 32 # lit ''more.''"
    by (simp_all add: lit_def)
  from assms have "decimal m @ lit '' drafts and are trying to add '' @ decimal n @ lit '' more.''
                    = decimal m' @ lit '' drafts and are trying to add '' @ decimal n' @ lit '' more.''"
    by (simp only: same_append_eq)
  then have 1: "decimal m @ 32 # (lit ''drafts and are trying to add '' @ decimal n @ 32 # lit ''more.'')
                    = decimal m' @ 32 # (lit ''drafts and are trying to add '' @ decimal n' @ 32 # lit ''more.'')"
    unfolding b c append_Cons .
  note head_eq = delimited_eq [OF decimal_digits decimal_digits space_not_digit 1]
  from head_eq have m: "decimal m = decimal m'" by (rule conjunct1)
  from head_eq have "lit ''drafts and are trying to add '' @ decimal n @ 32 # lit ''more.''
                    = lit ''drafts and are trying to add '' @ decimal n' @ 32 # lit ''more.''"
    by (rule conjunct2)
  then have 2: "decimal n @ 32 # lit ''more.'' = decimal n' @ 32 # lit ''more.''"
    by (simp only: same_append_eq)
  from delimited_eq [OF decimal_digits decimal_digits space_not_digit 2]
  have n: "decimal n = decimal n'" by (rule conjunct1)
  from m n show ?thesis by (blast dest: decimal_inj)
qed

section \<open>Properties of the draft uploader\<close>

lemma fetches_append: "fetches (xs @ ys) = fetches xs @ fetches ys"
  by (induction xs rule: fetches.induct) simp_all

lemma uploadAll_append:
  "uploadAll srv userId (xs @ ys) s =
     (let (e1, s1) = uploadAll srv userId xs s;
          (e2, s2) = uploadAll srv userId ys s1
      in (e1 @ e2, s2))"
  by (induction xs arbitrary: s) (simp_all split: prod.splits)

lemma uploadAll_legacy_append:
  "uploadAll_legacy srv (xs @ ys) s =
     (let (e1, s1) = uploadAll_legacy srv xs s;
          (e2, s2) = uploadAll_legacy srv ys s1
      in (e1 @ e2, s2))"
  by (induction xs arbitrary: s) (simp_all split: prod.splits)

lemma uploadOne_rejected:
  assumes "\<not> (startsWith (file_type f) (lit ''image/'') \<and> file_size f \<le> 10 * 1024 * 1024)"
  shows "uploadOne srv userId f s =
           ([ToastError (file_name f @
               (if \<not> startsWith (file_type f) (lit ''image/'') then lit '' is not an image file''
                else lit '' is too large (max 10MB)''))], s)"
  using assms by (auto simp: uploadOne_def)

lemma uploadOne_legacy_rejected:
  assumes "\<not> (startsWith (file_type f) (lit ''image/'') \<and> file_size f \<le> 10 * 1024 * 1024)"
  shows "uploadOne_legacy srv f s =
           ([ToastError (file_name f @
               (if \<not> startsWith (file_type f) (lit ''image/'') then lit '' is not an image file''
                else lit '' is too large (max 10MB)''))], s)"
  using assms by (auto simp: uploadOne_legacy_def)

lemma fetches_uploadOne:
  "fetches (fst (uploadOne srv userId f s)) =
     (if startsWith (file_type f) (lit ''image/'') \<and> file_size f \<le> 10 * 1024 * 1024
      then [\<lparr>fd_image = f, fd_user_id = Some userId\<rparr>] else [])"
  by (auto simp: uploadOne_def Let_def split: prod.splits fetch_outcome.splits)

lemma fetches_uploadOne_legacy:
  "fetches (fst (uploadOne_legacy srv f s)) =
     (if startsWith (file_type f) (lit ''image/'') \<and> file_size f \<le> 10 * 1024 * 1024
      then [\<lparr>fd_image = f, fd_user_id = None\<rparr>] else [])"
  by (auto simp: uploadOne_legacy_def Let_def split: prod.splits fetch_outcome.splits)

lemma fetches_uploadAll:
  "fetches (fst (uploadAll srv userId fs s)) =
     map (\<lambda>g. \<lparr>fd_image = g, fd_user_id = Some userId\<rparr>)
       (filter (\<lambda>g. startsWith (file_type g) (lit ''image/'') \<and> file_size g \<le> 10 * 1024 * 1024) fs)"
proof (induction fs arbitrary: s)
  case Nil
  show ?case by simp
next
  case (Cons f fs)
  obtain es s1 where one: "uploadOne srv userId f s = (es, s1)" by (cases "uploadOne srv userId f s")
  obtain es' s2 where rest: "uploadAll srv userId fs s1 = (es', s2)" by (cases "uploadAll srv userId fs s1")
  from fetches_uploadOne [of srv userId f s] one
  have a: "fetches es = (if startsWith (file_type f) (lit ''image/'') \<and> file_size f \<le> 10 * 1024 * 1024
      then [\<lparr>fd_image = f, fd_user_id = Some userId\<rparr>] else [])" by simp
  from Cons.IH [of s1] rest
  have b: "fetches es' = map (\<lambda>g. \<lparr>fd_image = g, fd_user_id = Some userId\<rparr>)
       (filter (\<lambda>g. startsWith (file_type g) (lit ''image/'') \<and> file_size g \<le> 10 * 1024 * 1024) fs)" by simp
  show ?case
    by (simp add: one rest fetches_append a b)
qed

lemma fetches_uploadAll_legacy:
  "fetches (fst (uploadAll_legacy srv fs s)) =
     map (\<lambda>g. \<lparr>fd_image = g, fd_user_id = None\<rparr>)
       (filter (\<lambda>g. startsWith (file_type g) (lit ''image/'') \<and> file_size g \<le> 10 * 1024 * 1024) fs)"
proof (induction fs arbitrary: s)
  case Nil
  show ?case by simp
next
  case (Cons f fs)
  obtain es s1 where one: "uploadOne_legacy srv f s = (es, s1)" by (cases "uploadOne_legacy srv f s")
  obtain es' s2 where rest: "uploadAll_legacy srv fs s1 = (es', s2)" by (cases "uploadAll_legacy srv fs s1")
  from fetches_uploadOne_legacy [of srv f s] one
  have a: "fetches es = (if startsWith (file_type f) (lit ''image/'') \<and> file_size f \<le> 10 * 1024 * 1024
      then [\<lparr>fd_image = f, fd_user_id = None\<rparr>] else [])" by simp
  from Cons.IH [of s1] rest
  have b: "fetches es' = map (\<lambda>g. \<lparr>fd_image = g, fd_user_id = None\<rparr>)
       (filter (\<lambda>g. startsWith (file_type g) (lit ''image/'') \<and> file_size g \<le> 10 * 1024 * 1024) fs)" by simp
  show ?case
    by (simp add: one rest fetches_append a b)
qed

text \<open>
  C1. When the drafts the component holds plus the files of the upload exceed 10,
  \<^verbatim>\<open>handleFiles\<close> does one thing only: it shows an error that names both counts
  in decimal, so that both can be read back from it. No upload request is sent and
  the backend state, the stored drafts with it, is as before.
\<close>

theorem handleFiles_capacity_error:
  assumes "length drafts + length fileArray > 10"
  shows "handleFiles srv userId drafts fileArray s =
           ([ToastError
               (lit ''You can only have 10 draft images total. You have ''
                @ decimal (length drafts)
                @ lit '' drafts and are trying to add ''
                @ decimal (length fileArray)
                @ lit '' more.'')], s)
         \<and> fetches (fst (handleFiles srv userId drafts fileArray s)) = []
         \<and> snd (handleFiles srv userId drafts fileArray s) = s
         \<and> (\<forall>drafts' fileArray'.
               fst (handleFiles srv userId drafts' fileArray' s)
                 = fst (handleFiles srv userId drafts fileArray s)
               \<longrightarrow> length drafts' = length drafts \<and> length fileArray' = length fileArray)"
proof -
  have a: "handleFiles srv userId drafts fileArray s =
           ([ToastError
               (lit ''You can only have 10 draft images total. You have ''
                @ decimal (length drafts)
                @ lit '' drafts and are trying to add ''
                @ decimal (length fileArray)
                @ lit '' more.'')], s)"
    using assms by (simp add: handleFiles_def)
  have names: "length drafts' = length drafts \<and> length fileArray' = length fileArray"
    if e: "fst (handleFiles srv userId drafts' fileArray' s)
                 = fst (handleFiles srv userId drafts fileArray s)" for drafts' fileArray'
  proof (cases "length drafts' + length fileArray' > 10")
    case True
    then have a': "handleFiles srv userId drafts' fileArray' s =
           ([ToastError
               (lit ''You can only have 10 draft images total. You have ''
                @ decimal (length drafts')
                @ lit '' drafts and are trying to add ''
                @ decimal (length fileArray')
                @ lit '' more.'')], s)"
      by (simp add: handleFiles_def)
    from e have "lit ''You can only have 10 draft images total. You have ''
                @ decimal (length drafts')
                @ lit '' drafts and are trying to add ''
                @ decimal (length fileArray')
                @ lit '' more.''
             = lit ''You can only have 10 draft images total. You have ''
                @ decimal (length drafts)
                @ lit '' drafts and are trying to add ''
                @ decimal (length fileArray)
                @ lit '' more.''"
      unfolding a a' by (simp only: fst_conv list.inject event.inject simp_thms)
    then show ?thesis by (rule capacity_message_names_counts)
  next
    case False
    then have "fst (handleFiles srv userId drafts' fileArray' s)
                 = SetUploading True # fst (uploadAll srv userId fileArray' s)
                     @ [SetUploading False, RefetchDrafts]"
      by (simp add: handleFiles_def split: prod.splits)
    with e have "[ToastError
               (lit ''You can only have 10 draft images total. You have ''
                @ decimal (length drafts)
                @ lit '' drafts and are trying to add ''
                @ decimal (length fileArray)
                @ lit '' more.'')]
             = SetUploading True # fst (uploadAll srv userId fileArray' s)
                     @ [SetUploading False, RefetchDrafts]"
      unfolding a by (simp only: fst_conv)
    then show ?thesis by simp
  qed
  have f: "fetches (fst (handleFiles srv userId drafts fileArray s)) = []"
    and u: "snd (handleFiles srv userId drafts fileArray s) = s"
    unfolding a by simp_all
  from a f u names show ?thesis by blast
qed

theorem handleFiles_capacity_error_witness:
  "length (replicate 10 (lit ''draft.png'')) + length [\<lparr>file_name = lit ''new.png'', file_type = lit ''image/png'', file_size = 1024\<rparr>] > 10
   \<and> handleFiles storing_server (lit ''u1'')
        (replicate 10 (lit ''draft.png''))
        [\<lparr>file_name = lit ''new.png'', file_type = lit ''image/png'', file_size = 1024\<rparr>] (0::nat)
      = ([ToastError (lit ''You can only have 10 draft images total. You have 10 drafts and are trying to add 1 more.'')], 0)"
proof -
  have h: "length (replicate 10 (lit ''draft.png''))
             + length [\<lparr>file_name = lit ''new.png'', file_type = lit ''image/png'', file_size = 1024\<rparr>] > 10"
    by simp
  note inst = handleFiles_capacity_error
         [where srv = storing_server and userId = "lit ''u1''" and s = "0::nat", OF h]
  from inst [THEN conjunct1] h show ?thesis
    by (simp add: decimal_10 decimal_1 lit_def)
qed

text \<open>
  C2, as amended. In both uploaders every file of a batch is checked on its own: its
  type must start with \<^verbatim>\<open>image/\<close> and its size must be at most 10 MiB
  (10485760 bytes pass). A file that fails a check costs exactly one error toast
  naming it, and the files before and after it are processed as if it were not
  there; the upload requests sent are those for the files that pass, in order. In
  the draft uploader this is what happens once the batch has passed the capacity
  check.
\<close>

theorem per_file_validation:
  assumes rej: "\<not> (startsWith (file_type f) (lit ''image/'') \<and> file_size f \<le> 10 * 1024 * 1024)"
  shows "(length drafts + length (pre @ f # post) \<le> 10 \<longrightarrow>
            handleFiles srv userId drafts (pre @ f # post) s =
              (let (e1, s1) = uploadAll srv userId pre s;
                   (e2, s2) = uploadAll srv userId post s1
               in (SetUploading True # e1
                   @ [ToastError (file_name f @
                        (if \<not> startsWith (file_type f) (lit ''image/'')
                         then lit '' is not an image file''
                         else lit '' is too large (max 10MB)''))]
                   @ e2 @ [SetUploading False, RefetchDrafts], s2)))
         \<and> (length drafts + length fileArray \<le> 10 \<longrightarrow>
            fetches (fst (handleFiles srv userId drafts fileArray s)) =
              map (\<lambda>g. \<lparr>fd_image = g, fd_user_id = Some userId\<rparr>)
                (filter (\<lambda>g. startsWith (file_type g) (lit ''image/'')
                              \<and> file_size g \<le> 10 * 1024 * 1024) fileArray))
         \<and> handleFiles_legacy srv (pre @ f # post) s =
              (let (e1, s1) = uploadAll_legacy srv pre s;
                   (e2, s2) = uploadAll_legacy srv post s1
               in (SetUploading True # e1
                   @ [ToastError (file_name f @
                        (if \<not> startsWith (file_type f) (lit ''image/'')
                         then lit '' is not an image file''
                         else lit '' is too large (max 10MB)''))]
                   @ e2 @ [SetUploading False], s2))
         \<and> fetches (fst (handleFiles_legacy srv fileArray s)) =
              map (\<lambda>g. \<lparr>fd_image = g, fd_user_id = None\<rparr>)
                (filter (\<lambda>g. startsWith (file_type g) (lit ''image/'')
                              \<and> file_size g \<le> 10 * 1024 * 1024) fileArray)"
proof (intro conjI impI)
  assume "length drafts + length (pre @ f # post) \<le> 10"
  then have c: "\<not> 10 < length drafts + length (pre @ f # post)" by simp
  show "handleFiles srv userId drafts (pre @ f # post) s =
           (let (e1, s1) = uploadAll srv userId pre s;
                (e2, s2) = uploadAll srv userId post s1
            in (SetUploading True # e1
                @ [ToastError (file_name f @
                     (if \<not> startsWith (file_type f) (lit ''image/'')
                      then lit '' is not an image file''
                      else lit '' is too large (max 10MB)''))]
                @ e2 @ [SetUploading False, RefetchDrafts], s2))"
    unfolding handleFiles_def if_not_P [OF c] uploadAll_append
    by (simp add: uploadOne_rejected [OF rej] split: prod.splits)
next
  assume "length drafts + length fileArray \<le> 10"
  then have c: "\<not> 10 < length drafts + length fileArray" by simp
  have "fetches (fst (handleFiles srv userId drafts fileArray s))
          = fetches (fst (uploadAll srv userId fileArray s))"
    unfolding handleFiles_def if_not_P [OF c]
    by (simp add: fetches_append split: prod.splits)
  then show "fetches (fst (handleFiles srv userId drafts fileArray s)) =
             map (\<lambda>g. \<lparr>fd_image = g, fd_user_id = Some userId\<rparr>)
               (filter (\<lambda>g. startsWith (file_type g) (lit ''image/'')
                             \<and> file_size g \<le> 10 * 1024 * 1024) fileArray)"
    by (simp only: fetches_uploadAll)
next
  show "handleFiles_legacy srv (pre @ f # post) s =
           (let (e1, s1) = uploadAll_legacy srv pre s;
                (e2, s2) = uploadAll_legacy srv post s1
            in (SetUploading True # e1
                @ [ToastError (file_name f @
                     (if \<not> startsWith (file_type f) (lit ''image/'')
                      then lit '' is not an image file''
                      else lit '' is too large (max 10MB)''))]
                @ e2 @ [SetUploading False], s2))"
    unfolding handleFiles_legacy_def uploadAll_legacy_append
    by (simp add: uploadOne_legacy_rejected [OF rej] split: prod.splits)
next
  have "fetches (fst (handleFiles_legacy srv fileArray s))
          = fetches (fst (uploadAll_legacy srv fileArray s))"
    unfolding handleFiles_legacy_def
    by (simp add: fetches_append split: prod.splits)
  then show "fetches (fst (handleFiles_legacy srv fileArray s)) =
             map (\<lambda>g. \<lparr>fd_image = g, fd_user_id = None\<rparr>)
               (filter (\<lambda>g. startsWith (file_type g) (lit ''image/'')
                             \<and> file_size g \<le> 10 * 1024 * 1024) fileArray)"
    by (simp only: fetches_uploadAll_legacy)
qed

theorem per_file_validation_witness:
  "\<not> (startsWith (file_type \<lparr>file_name = lit ''notes.txt'', file_type = lit ''text/plain'', file_size = 12\<rparr>) (lit ''image/'')
       \<and> file_size \<lparr>file_name = lit ''notes.txt'', file_type = lit ''text/plain'', file_size = 12\<rparr> \<le> 10 * 1024 * 1024)
   \<and> length [lit ''old.png'']
        + length ([\<lparr>file_name = lit ''a.png'', file_type = lit ''image/png'', file_size = 2048\<rparr>]
                  @ \<lparr>file_name = lit ''notes.txt'', file_type = lit ''text/plain'', file_size = 12\<rparr>
                  # [\<lparr>file_name = lit ''big.png'', file_type = lit ''image/png'', file_size = 10485761\<rparr>]) \<le> 10
   \<and> handleFiles storing_server (lit ''u1'') [lit ''old.png'']
        [\<lparr>file_name = lit ''a.png'', file_type = lit ''image/png'', file_size = 2048\<rparr>,
         \<lparr>file_name = lit ''notes.txt'', file_type = lit ''text/plain'', file_size = 12\<rparr>,
         \<lparr>file_name = lit ''big.png'', file_type = lit ''image/png'', file_size = 10485761\<rparr>] 1
     = ([SetUploading True,
         Fetch UploadDraftImage
           \<lparr>fd_image = \<lparr>file_name = lit ''a.png'', file_type = lit ''image/png'', file_size = 2048\<rparr>,
            fd_user_id = Some (lit ''u1'')\<rparr>,
         OnImageUpload (Some (lit ''a.png'')),
         ToastSuccess (lit ''a.png saved as draft''),
         ToastError (lit ''notes.txt is not an image file''),
         ToastError (lit ''big.png is too large (max 10MB)''),
         SetUploading False, RefetchDrafts], 2)
   \<and> handleFiles_legacy storing_server
        [\<lparr>file_name = lit ''a.png'', file_type = lit ''image/png'', file_size = 2048\<rparr>,
         \<lparr>file_name = lit ''notes.txt'', file_type = lit ''text/plain'', file_size = 12\<rparr>,
         \<lparr>file_name = lit ''big.png'', file_type = lit ''image/png'', file_size = 10485761\<rparr>] 1
     = ([SetUploading True,
         Fetch UploadImage
           \<lparr>fd_image = \<lparr>file_name = lit ''a.png'', file_type = lit ''image/png'', file_size = 2048\<rparr>,
            fd_user_id = None\<rparr>,
         AppendUploadedImage (Some (lit ''a.png'')),
         OnImageUpload (Some (lit ''a.png'')),
         ToastError (lit ''notes.txt is not an image file''),
         ToastError (lit ''big.png is too large (max 10MB)''),
         SetUploading False], 2)"
proof -
  have rej: "\<not> (startsWith (file_type \<lparr>file_name = lit ''notes.txt'', file_type = lit ''text/plain'', file_size = 12\<rparr>) (lit ''image/'')
       \<and> file_size \<lparr>file_name = lit ''notes.txt'', file_type = lit ''text/plain'', file_size = 12\<rparr> \<le> 10 * 1024 * 1024)"
    by (simp add: startsWith_def lit_def)
  have cap: "length [lit ''old.png'']
        + length ([\<lparr>file_name = lit ''a.png'', file_type = lit ''image/png'', file_size = 2048\<rparr>]
                  @ \<lparr>file_name = lit ''notes.txt'', file_type = lit ''text/plain'', file_size = 12\<rparr>
                  # [\<lparr>file_name = lit ''big.png'', file_type = lit ''image/png'', file_size = 10485761\<rparr>]) \<le> 10"
    by simp
  note inst = per_file_validation
    [where srv = storing_server and userId = "lit ''u1''" and s = 1
       and pre = "[\<lparr>file_name = lit ''a.png'', file_type = lit ''image/png'', file_size = 2048\<rparr>]"
       and post = "[\<lparr>file_name = lit ''big.png'', file_type = lit ''image/png'', file_size = 10485761\<rparr>]",
     OF rej]
  from inst [THEN conjunct1, THEN mp, OF cap]
  have 1: "handleFiles storing_server (lit ''u1'') [lit ''old.png'']
        ([\<lparr>file_name = lit ''a.png'', file_type = lit ''image/png'', file_size = 2048\<rparr>]
          @ \<lparr>file_name = lit ''notes.txt'', file_type = lit ''text/plain'', file_size = 12\<rparr>
          # [\<lparr>file_name = lit ''big.png'', file_type = lit ''image/png'', file_size = 10485761\<rparr>]) 1
     = ([SetUploading True,
         Fetch UploadDraftImage
           \<lparr>fd_image = \<lparr>file_name = lit ''a.png'', file_type = lit ''image/png'', file_size = 2048\<rparr>,
            fd_user_id = Some (lit ''u1'')\<rparr>,
         OnImageUpload (Some (lit ''a.png'')),
         ToastSuccess (lit ''a.png saved as draft''),
         ToastError (lit ''notes.txt is not an image file''),
         ToastError (lit ''big.png is too large (max 10MB)''),
         SetUploading False, RefetchDrafts], 2)"
    by (simp add: uploadOne_def storing_server_def startsWith_def lit_def)
  from inst [THEN conjunct2, THEN conjunct2, THEN conjunct1]
  have 2: "handleFiles_legacy storing_server
        ([\<lparr>file_name = lit ''a.png'', file_type = lit ''image/png'', file_size = 2048\<rparr>]
          @ \<lparr>file_name = lit ''notes.txt'', file_type = lit ''text/plain'', file_size = 12\<rparr>
          # [\<lparr>file_name = lit ''big.png'', file_type = lit ''image/png'', file_size = 10485761\<rparr>]) 1
     = ([SetUploading True,
         Fetch UploadImage
           \<lparr>fd_image = \<lparr>file_name = lit ''a.png'', file_type = lit ''image/png'', file_size = 2048\<rparr>,
            fd_user_id = None\<rparr>,
         AppendUploadedImage (Some (lit ''a.png'')),
         OnImageUpload (Some (lit ''a.png'')),
         ToastError (lit ''notes.txt is not an image file''),
         ToastError (lit ''big.png is too large (max 10MB)''),
         SetUploading False], 2)"
    by (simp add: uploadOne_legacy_def storing_server_def startsWith_def lit_def)
  from rej cap 1 2 show ?thesis by simp
qed

text \<open>
  C2, as stated, at a file of exactly 10 MiB: its size is not under the limit, and
  the uploader sends it to the backend without any error.
\<close>

theorem size_limit_inclusive_counterexample:
  "\<not> file_size \<lparr>file_name = lit ''exact.png'', file_type = lit ''image/png'', file_size = 10485760\<rparr>
        < 10 * 1024 * 1024
   \<and> handleFiles storing_server (lit ''u1'') []
        [\<lparr>file_name = lit ''exact.png'', file_type = lit ''image/png'', file_size = 10485760\<rparr>] 0
     = ([SetUploading True,
         Fetch UploadDraftImage
           \<lparr>fd_image = \<lparr>file_name = lit ''exact.png'', file_type = lit ''image/png'', file_size = 10485760\<rparr>,
            fd_user_id = Some (lit ''u1'')\<rparr>,
         OnImageUpload (Some (lit ''exact.png'')),
         ToastSuccess (lit ''exact.png saved as draft''),
         SetUploading False, RefetchDrafts], 1)"
  by (simp add: handleFiles_def uploadOne_def storing_server_def startsWith_def lit_def)

text \<open>
  C8. The capacity error is raised exactly when the drafts held plus all selected
  files exceed 10, whatever the files are; and there is a batch with a file that
  is not an image for which the upload fails with the capacity error although the
  files that pass validation fit into the remaining slots.
\<close>

theorem capacity_check_counts_rejected_files:
  "(fst (handleFiles srv userId drafts fileArray s) =
      [ToastError
         (lit ''You can only have 10 draft images total. You have ''
          @ decimal (length drafts)
          @ lit '' drafts and are trying to add ''
          @ decimal (length fileArray)
          @ lit '' more.'')])
     = (10 < length drafts + length fileArray)
   \<and> (\<exists>ds fs.
         filter (\<lambda>g. \<not> startsWith (file_type g) (lit ''image/'')) fs \<noteq> []
         \<and> length ds
             + length (filter (\<lambda>g. startsWith (file_type g) (lit ''image/'')
                                   \<and> file_size g \<le> 10 * 1024 * 1024) fs) \<le> 10
         \<and> handleFiles srv userId ds fs s =
             ([ToastError
                 (lit ''You can only have 10 draft images total. You have ''
                  @ decimal (length ds)
                  @ lit '' drafts and are trying to add ''
                  @ decimal (length fs)
                  @ lit '' more.'')], s))"
proof
  show "(fst (handleFiles srv userId drafts fileArray s) =
      [ToastError
         (lit ''You can only have 10 draft images total. You have ''
          @ decimal (length drafts)
          @ lit '' drafts and are trying to add ''
          @ decimal (length fileArray)
          @ lit '' more.'')])
     = (10 < length drafts + length fileArray)"
    by (simp add: handleFiles_def split: prod.splits)
next
  let ?ds = "replicate 9 (lit ''draft.png'')"
  let ?fs = "[\<lparr>file_name = lit ''a.png'', file_type = lit ''image/png'', file_size = 2048\<rparr>,
              \<lparr>file_name = lit ''notes.txt'', file_type = lit ''text/plain'', file_size = 12\<rparr>]"
  have "filter (\<lambda>g. \<not> startsWith (file_type g) (lit ''image/'')) ?fs \<noteq> []"
    by (simp add: startsWith_def lit_def)
  moreover have "length ?ds
             + length (filter (\<lambda>g. startsWith (file_type g) (lit ''image/'')
                                   \<and> file_size g \<le> 10 * 1024 * 1024) ?fs) \<le> 10"
    by (simp add: startsWith_def lit_def)
  moreover have "handleFiles srv userId ?ds ?fs s =
             ([ToastError
                 (lit ''You can only have 10 draft images total. You have ''
                  @ decimal (length ?ds)
                  @ lit '' drafts and are trying to add ''
                  @ decimal (length ?fs)
                  @ lit '' more.'')], s)"
    by (simp add: handleFiles_def)
  ultimately show "\<exists>ds fs.
         filter (\<lambda>g. \<not> startsWith (file_type g) (lit ''image/'')) fs \<noteq> []
         \<and> length ds
             + length (filter (\<lambda>g. startsWith (file_type g) (lit ''image/'')
                                   \<and> file_size g \<le> 10 * 1024 * 1024) fs) \<le> 10
         \<and> handleFiles srv userId ds fs s =
             ([ToastError
                 (lit ''You can only have 10 draft images total. You have ''
                  @ decimal (length ds)
                  @ lit '' drafts and are trying to add ''
                  @ decimal (length fs)
                  @ lit '' more.'')], s)"
    by blast
qed

section \<open>Properties of user setup\<close>

lemma rls_select_users [simp]: "rls_select users_policy req wh rows = filter wh rows"
  by (simp add: rls_select_def users_policy_def)

lemma rls_delete_users [simp]: "rls_delete users_policy req wh rows = filter (\<lambda>r. \<not> wh r) rows"
  by (simp add: rls_delete_def users_policy_def)

lemma filter_key_unique:
  "distinct (map f xs) \<Longrightarrow> x \<in> set xs \<Longrightarrow> filter (\<lambda>r. f r = f x) xs = [x]"
proof (induction xs)
  case Nil
  then show ?case by simp
next
  case (Cons a xs)
  show ?case
  proof (cases "a = x")
    case True
    from Cons.prems have "\<forall>r\<in>set xs. f r \<noteq> f x" using True by (auto simp: image_iff)
    then have "filter (\<lambda>r. f r = f x) xs = []" by (simp add: filter_empty_conv)
    with True show ?thesis by simp
  next
    case False
    with Cons.prems have x: "x \<in> set xs" and d: "distinct (map f xs)" and "f a \<notin> f ` set xs" by auto
    then have "f a \<noteq> f x" by auto
    with Cons.IH [OF d x] show ?thesis by simp
  qed
qed

lemma single_existing:
  assumes "distinct (map u_id (users d))" and "Some t \<in> set (map u_id (users d))"
  shows "single (map u_id (filter (\<lambda>r. u_id r = Some t) (users d))) = Some (Some t)"
proof -
  from assms(2) obtain x where x: "x \<in> set (users d)" and t: "u_id x = Some t" by auto
  from filter_key_unique [OF assms(1) x] t
  have "filter (\<lambda>r. u_id r = Some t) (users d) = [x]" by simp
  with t show ?thesis by (simp add: single_def)
qed

lemma single_absent:
  assumes "Some t \<notin> set (map u_id (users d))"
  shows "single (map u_id (filter (\<lambda>r. u_id r = Some t) (users d))) = None"
proof -
  from assms have "filter (\<lambda>r. u_id r = Some t) (users d) = []"
    by (auto simp: filter_empty_conv image_iff)
  then show ?thesis by (simp add: single_def)
qed

lemma new_user_text_ok:
  "user_text_ok storable (no_user_columns
       \<lparr>ui_id := Val t, ui_name := Val t,
        ui_preferences := Val (JObject []), ui_usage_stats := Val (JObject [])\<rparr>) = storable t"
  by (auto simp: user_text_ok_def no_user_columns_def col_storable_def)

lemma new_user_row:
  "user_of_insert now (no_user_columns
       \<lparr>ui_id := Val t, ui_name := Val t,
        ui_preferences := Val (JObject []), ui_usage_stats := Val (JObject [])\<rparr>)
   = \<lparr>u_id = Some t, u_email = None, u_name = Some t,
      u_ai_provider = None, u_ai_api_key_encrypted = None, u_ebay_app_id = None,
      u_ebay_cert_id = None, u_ebay_dev_id = None, u_ebay_refresh_token = None,
      u_preferences = Some (JObject []), u_usage_stats = Some (JObject []),
      u_created_at = Some now, u_updated_at = Some now\<rparr>"
  by (simp add: user_of_insert_def no_user_columns_def resolve_def)

lemma insert_new_user:
  assumes "Some t \<notin> set (map u_id (users d))"
  shows "insert_user req now (no_user_columns
            \<lparr>ui_id := Val t, ui_name := Val t,
             ui_preferences := Val (JObject []), ui_usage_stats := Val (JObject [])\<rparr>) d
         = Inr (\<lparr>u_id = Some t, u_email = None, u_name = Some t,
                 u_ai_provider = None, u_ai_api_key_encrypted = None, u_ebay_app_id = None,
                 u_ebay_cert_id = None, u_ebay_dev_id = None, u_ebay_refresh_token = None,
                 u_preferences = Some (JObject []), u_usage_stats = Some (JObject []),
                 u_created_at = Some now, u_updated_at = Some now\<rparr>,
                d\<lparr>users := users d @
                  [\<lparr>u_id = Some t, u_email = None, u_name = Some t,
                    u_ai_provider = None, u_ai_api_key_encrypted = None, u_ebay_app_id = None,
                    u_ebay_cert_id = None, u_ebay_dev_id = None, u_ebay_refresh_token = None,
                    u_preferences = Some (JObject []), u_usage_stats = Some (JObject []),
                    u_created_at = Some now, u_updated_at = Some now\<rparr>]\<rparr>)"
  unfolding insert_user_def new_user_row Let_def using assms
  by (simp add: users_policy_def)

lemma handleCreateUser_existing:
  assumes "trim userId \<noteq> []" and "distinct (map u_id (users d))"
      and "Some (trim userId) \<in> set (map u_id (users d))"
      and "link (SelectUserId (trim userId)) = Answered"
  shows "handleCreateUser storable link req now userId d =
           ([SetIsLoading True, SelectUserId (trim userId),
                ToastSuccess (lit ''Welcome back, '' @ userId @ lit ''!''),
                OnUserCreated (trim userId),
                SetIsLoading False], d)"
  using assms(1,4) single_existing [OF assms(2,3)]
  by (simp add: handleCreateUser_def)

lemma handleCreateUser_new:
  assumes "trim userId \<noteq> []" and "Some (trim userId) \<notin> set (map u_id (users d))"
      and "storable (trim userId)"
      and "link (SelectUserId (trim userId)) = Answered"
      and "link (InsertUser (no_user_columns
                    \<lparr>ui_id := Val (trim userId), ui_name := Val (trim userId),
                     ui_preferences := Val (JObject []), ui_usage_stats := Val (JObject [])\<rparr>)) = Answered"
  shows "handleCreateUser storable link req now userId d =
           ([SetIsLoading True, SelectUserId (trim userId),
                InsertUser (no_user_columns
                    \<lparr>ui_id := Val (trim userId), ui_name := Val (trim userId),
                     ui_preferences := Val (JObject []), ui_usage_stats := Val (JObject [])\<rparr>),
                ToastSuccess (lit ''Welcome, '' @ userId @ lit ''! Your account has been created.''),
                OnUserCreated (trim userId),
                SetIsLoading False],
               d\<lparr>users := users d @
                 [\<lparr>u_id = Some (trim userId), u_email = None, u_name = Some (trim userId),
                   u_ai_provider = None, u_ai_api_key_encrypted = None, u_ebay_app_id = None,
                   u_ebay_cert_id = None, u_ebay_dev_id = None, u_ebay_refresh_token = None,
                   u_preferences = Some (JObject []), u_usage_stats = Some (JObject []),
                   u_created_at = Some now, u_updated_at = Some now\<rparr>]\<rparr>)"
  unfolding handleCreateUser_def Let_def request_insert_user_def new_user_text_ok
    insert_new_user [OF assms(2)]
  using assms(1,3,4,5) single_absent [OF assms(2)]
  by simp

lemma handleCreateUser_refused:
  assumes "trim userId \<noteq> []" and "Some (trim userId) \<notin> set (map u_id (users d))"
      and "\<not> storable (trim userId)"
      and "link (SelectUserId (trim userId)) = Answered"
      and "link (InsertUser (no_user_columns
                    \<lparr>ui_id := Val (trim userId), ui_name := Val (trim userId),
                     ui_preferences := Val (JObject []), ui_usage_stats := Val (JObject [])\<rparr>)) = Answered"
  shows "handleCreateUser storable link req now userId d =
           ([SetIsLoading True, SelectUserId (trim userId),
                InsertUser (no_user_columns
                    \<lparr>ui_id := Val (trim userId), ui_name := Val (trim userId),
                     ui_preferences := Val (JObject []), ui_usage_stats := Val (JObject [])\<rparr>),
                ConsoleError (Postgres (InvalidText ''users'')),
                ToastError (lit ''Failed to create user account''),
                SetIsLoading False], d)"
  unfolding handleCreateUser_def Let_def request_insert_user_def new_user_text_ok
  using assms(1,3,4,5) single_absent [OF assms(2)]
  by simp


lemma handleCreateUser_keeps_key:
  assumes "trim userId \<noteq> []" and "distinct (map u_id (users d))"
      and "link (SelectUserId (trim userId)) = Answered"
      and "link (InsertUser (no_user_columns
                    \<lparr>ui_id := Val (trim userId), ui_name := Val (trim userId),
                     ui_preferences := Val (JObject []), ui_usage_stats := Val (JObject [])\<rparr>)) = Answered"
  shows "distinct (map u_id (users (snd (handleCreateUser storable link req now userId d))))"
proof (cases "Some (trim userId) \<in> set (map u_id (users d))")
  case True
  with assms show ?thesis by (simp add: handleCreateUser_existing)
next
  case n: False
  show ?thesis
  proof (cases "storable (trim userId)")
    case True
    with assms n show ?thesis by (simp add: handleCreateUser_new)
  next
    case False
    with assms n show ?thesis by (simp add: handleCreateUser_refused)
  qed
qed

lemma handleCreateUser_registers:
  assumes "trim userId \<noteq> []" and "distinct (map u_id (users d))"
      and "link (SelectUserId (trim userId)) = Answered"
      and "link (InsertUser (no_user_columns
                    \<lparr>ui_id := Val (trim userId), ui_name := Val (trim userId),
                     ui_preferences := Val (JObject []), ui_usage_stats := Val (JObject [])\<rparr>)) = Answered"
      and "Some (trim userId) \<in> set (map u_id (users d)) \<or> storable (trim userId)"
  shows "Some (trim userId) \<in> set (map u_id (users (snd (handleCreateUser storable link req now userId d))))"
proof (cases "Some (trim userId) \<in> set (map u_id (users d))")
  case True
  with assms show ?thesis by (simp add: handleCreateUser_existing)
next
  case False
  with assms(5) have "storable (trim userId)" by blast
  with assms False show ?thesis by (simp add: handleCreateUser_new)
qed





lemma trim_example: "trim (lit '' u1 '') = lit ''u1''"
  by (simp add: trim_def lit_def isWhiteSpace_def)

lemma trim_blank: "trim (lit ''  '') = []"
  by (simp add: trim_def lit_def isWhiteSpace_def)


lemma nul_free_u1: "nul_free (lit ''u1'')"
  by (simp add: nul_free_def lit_def)

lemma insert_known_user:
  assumes "Some t \<in> set (map u_id (users d))"
  shows "insert_user req now (no_user_columns
            \<lparr>ui_id := Val t, ui_name := Val t,
             ui_preferences := Val (JObject []), ui_usage_stats := Val (JObject [])\<rparr>) d
         = Inl (UniqueViolation ''users_pkey'')"
  unfolding insert_user_def new_user_row Let_def using assms
  by (simp add: users_policy_def)

lemma no_existing_user:
  assumes "link (SelectUserId (trim userId)) \<noteq> Rejected"
      and "link (SelectUserId (trim userId)) = Errored
           \<or> Some (trim userId) \<notin> set (map u_id (users d))"
  shows "(if link (SelectUserId (trim userId)) = Answered then
            single (map u_id
              (rls_select users_policy req (\<lambda>r. u_id r = Some (trim userId)) (users d)))
          else None) = None"
proof (cases "link (SelectUserId (trim userId)) = Answered")
  case True
  with assms(2) have "Some (trim userId) \<notin> set (map u_id (users d))" by simp
  from single_absent [OF this] True show ?thesis by simp
next
  case False
  then show ?thesis by simp
qed

lemma handleCreateUser_inserts:
  assumes "trim userId \<noteq> []"
      and "link (SelectUserId (trim userId)) \<noteq> Rejected"
      and "link (SelectUserId (trim userId)) = Errored
           \<or> Some (trim userId) \<notin> set (map u_id (users d))"
  shows "handleCreateUser storable link req now userId d =
           (if link (InsertUser (no_user_columns
                    \<lparr>ui_id := Val (trim userId), ui_name := Val (trim userId),
                     ui_preferences := Val (JObject []), ui_usage_stats := Val (JObject [])\<rparr>)) \<noteq> Answered then
              ([SetIsLoading True, SelectUserId (trim userId),
                InsertUser (no_user_columns
                    \<lparr>ui_id := Val (trim userId), ui_name := Val (trim userId),
                     ui_preferences := Val (JObject []), ui_usage_stats := Val (JObject [])\<rparr>),
                ConsoleError Unknown,
                ToastError (lit ''Failed to create user account''),
                SetIsLoading False], d)
            else
              case request_insert_user storable req now (no_user_columns
                    \<lparr>ui_id := Val (trim userId), ui_name := Val (trim userId),
                     ui_preferences := Val (JObject []), ui_usage_stats := Val (JObject [])\<rparr>) d of
                Inl err \<Rightarrow>
                  ([SetIsLoading True, SelectUserId (trim userId),
                    InsertUser (no_user_columns
                    \<lparr>ui_id := Val (trim userId), ui_name := Val (trim userId),
                     ui_preferences := Val (JObject []), ui_usage_stats := Val (JObject [])\<rparr>),
                    ConsoleError (Postgres err),
                    ToastError (lit ''Failed to create user account''),
                    SetIsLoading False], d)
              | Inr (row, d') \<Rightarrow>
                  ([SetIsLoading True, SelectUserId (trim userId),
                    InsertUser (no_user_columns
                    \<lparr>ui_id := Val (trim userId), ui_name := Val (trim userId),
                     ui_preferences := Val (JObject []), ui_usage_stats := Val (JObject [])\<rparr>),
                    ToastSuccess (lit ''Welcome, '' @ userId
                                    @ lit ''! Your account has been created.''),
                    OnUserCreated (trim userId),
                    SetIsLoading False], d'))"
  unfolding handleCreateUser_def Let_def 
    no_existing_user [where link = link and userId = userId and req = req, OF assms(2,3)]
  using assms(1,2) by (simp split: sum.splits)

text \<open>
  C3, as amended. For an identifier whose trimmed form \<open>t\<close> is not empty, on a users
  table that respects its primary key. With the lookup answered and a row with
  identifier \<open>t\<close> in the table, \<^verbatim>\<open>handleCreateUser\<close> reports \<open>t\<close> and writes nothing.
  With no such row, the insert answered and \<open>t\<close> a string the database can hold, it
  inserts one row with identifier and name \<open>t\<close> and empty preferences and usage
  statistics. In both cases a second call, whoever makes it, finds the row and
  leaves the table unchanged. In every other case nothing is written and the
  failure is logged and shown: when the database cannot hold \<open>t\<close>, when a request
  is not answered, and when the lookup ends in an error although the row exists, so
  that the primary key refuses the insert.
\<close>

theorem create_or_fetch_user:
  assumes ne: "trim userId \<noteq> []" and pk: "distinct (map u_id (users d))"
  shows "(link (SelectUserId (trim userId)) = Answered
           \<and> Some (trim userId) \<in> set (map u_id (users d)) \<longrightarrow>
            handleCreateUser storable link req now userId d =
              ([SetIsLoading True, SelectUserId (trim userId),
                ToastSuccess (lit ''Welcome back, '' @ userId @ lit ''!''),
                OnUserCreated (trim userId),
                SetIsLoading False], d))
         \<and> (link (SelectUserId (trim userId)) \<noteq> Rejected
           \<and> link (InsertUser (no_user_columns
                    \<lparr>ui_id := Val (trim userId), ui_name := Val (trim userId),
                     ui_preferences := Val (JObject []), ui_usage_stats := Val (JObject [])\<rparr>)) = Answered
           \<and> Some (trim userId) \<notin> set (map u_id (users d)) \<and> storable (trim userId) \<longrightarrow>
            handleCreateUser storable link req now userId d =
              ([SetIsLoading True, SelectUserId (trim userId),
                InsertUser (no_user_columns
                    \<lparr>ui_id := Val (trim userId), ui_name := Val (trim userId),
                     ui_preferences := Val (JObject []), ui_usage_stats := Val (JObject [])\<rparr>),
                ToastSuccess (lit ''Welcome, '' @ userId @ lit ''! Your account has been created.''),
                OnUserCreated (trim userId),
                SetIsLoading False],
               d\<lparr>users := users d @
                 [\<lparr>u_id = Some (trim userId), u_email = None, u_name = Some (trim userId),
                   u_ai_provider = None, u_ai_api_key_encrypted = None, u_ebay_app_id = None,
                   u_ebay_cert_id = None, u_ebay_dev_id = None, u_ebay_refresh_token = None,
                   u_preferences = Some (JObject []), u_usage_stats = Some (JObject []),
                   u_created_at = Some now, u_updated_at = Some now\<rparr>]\<rparr>))
         \<and> (link (SelectUserId (trim userId)) \<noteq> Rejected
           \<and> link (InsertUser (no_user_columns
                    \<lparr>ui_id := Val (trim userId), ui_name := Val (trim userId),
                     ui_preferences := Val (JObject []), ui_usage_stats := Val (JObject [])\<rparr>)) = Answered
           \<and> (link (SelectUserId (trim userId)) = Errored
                \<or> Some (trim userId) \<notin> set (map u_id (users d)))
           \<and> \<not> storable (trim userId) \<longrightarrow>
            handleCreateUser storable link req now userId d =
              ([SetIsLoading True, SelectUserId (trim userId),
                InsertUser (no_user_columns
                    \<lparr>ui_id := Val (trim userId), ui_name := Val (trim userId),
                     ui_preferences := Val (JObject []), ui_usage_stats := Val (JObject [])\<rparr>),
                ConsoleError (Postgres (InvalidText ''users'')),
                ToastError (lit ''Failed to create user account''),
                SetIsLoading False], d))
         \<and> (link (SelectUserId (trim userId)) = Answered
           \<and> link (InsertUser (no_user_columns
                    \<lparr>ui_id := Val (trim userId), ui_name := Val (trim userId),
                     ui_preferences := Val (JObject []), ui_usage_stats := Val (JObject [])\<rparr>)) = Answered
           \<and> (Some (trim userId) \<in> set (map u_id (users d)) \<or> storable (trim userId)) \<longrightarrow>
            handleCreateUser storable link req' now' userId (snd (handleCreateUser storable link req now userId d)) =
              ([SetIsLoading True, SelectUserId (trim userId),
                ToastSuccess (lit ''Welcome back, '' @ userId @ lit ''!''),
                OnUserCreated (trim userId),
                SetIsLoading False], snd (handleCreateUser storable link req now userId d)))
         \<and> (link (SelectUserId (trim userId)) = Rejected \<longrightarrow>
            handleCreateUser storable link req now userId d =
              ([SetIsLoading True, SelectUserId (trim userId),
                ConsoleError Unknown,
                ToastError (lit ''Failed to create user account''),
                SetIsLoading False], d))
         \<and> (link (SelectUserId (trim userId)) \<noteq> Rejected
           \<and> link (InsertUser (no_user_columns
                    \<lparr>ui_id := Val (trim userId), ui_name := Val (trim userId),
                     ui_preferences := Val (JObject []), ui_usage_stats := Val (JObject [])\<rparr>)) \<noteq> Answered
           \<and> (link (SelectUserId (trim userId)) = Errored
                \<or> Some (trim userId) \<notin> set (map u_id (users d))) \<longrightarrow>
            handleCreateUser storable link req now userId d =
              ([SetIsLoading True, SelectUserId (trim userId),
                InsertUser (no_user_columns
                    \<lparr>ui_id := Val (trim userId), ui_name := Val (trim userId),
                     ui_preferences := Val (JObject []), ui_usage_stats := Val (JObject [])\<rparr>),
                ConsoleError Unknown,
                ToastError (lit ''Failed to create user account''),
                SetIsLoading False], d))
         \<and> (link (SelectUserId (trim userId)) = Errored
           \<and> link (InsertUser (no_user_columns
                    \<lparr>ui_id := Val (trim userId), ui_name := Val (trim userId),
                     ui_preferences := Val (JObject []), ui_usage_stats := Val (JObject [])\<rparr>)) = Answered
           \<and> Some (trim userId) \<in> set (map u_id (users d)) \<and> storable (trim userId) \<longrightarrow>
            handleCreateUser storable link req now userId d =
              ([SetIsLoading True, SelectUserId (trim userId),
                InsertUser (no_user_columns
                    \<lparr>ui_id := Val (trim userId), ui_name := Val (trim userId),
                     ui_preferences := Val (JObject []), ui_usage_stats := Val (JObject [])\<rparr>),
                ConsoleError (Postgres (UniqueViolation ''users_pkey'')),
                ToastError (lit ''Failed to create user account''),
                SetIsLoading False], d))"
proof (intro conjI impI)
  assume "link (SelectUserId (trim userId)) = Answered
           \<and> Some (trim userId) \<in> set (map u_id (users d))"
  then have "link (SelectUserId (trim userId)) = Answered"
    and "Some (trim userId) \<in> set (map u_id (users d))" by blast+
  with ne pk show "handleCreateUser storable link req now userId d =
              ([SetIsLoading True, SelectUserId (trim userId),
                ToastSuccess (lit ''Welcome back, '' @ userId @ lit ''!''),
                OnUserCreated (trim userId),
                SetIsLoading False], d)"
    by (simp add: handleCreateUser_existing)
next
  assume h: "link (SelectUserId (trim userId)) \<noteq> Rejected
           \<and> link (InsertUser (no_user_columns
                    \<lparr>ui_id := Val (trim userId), ui_name := Val (trim userId),
                     ui_preferences := Val (JObject []), ui_usage_stats := Val (JObject [])\<rparr>)) = Answered
           \<and> Some (trim userId) \<notin> set (map u_id (users d)) \<and> storable (trim userId)"
  then have absent: "Some (trim userId) \<notin> set (map u_id (users d))" by blast
  from h have "link (SelectUserId (trim userId)) \<noteq> Rejected"
    and "link (SelectUserId (trim userId)) = Errored
           \<or> Some (trim userId) \<notin> set (map u_id (users d))" by blast+
  note ins = handleCreateUser_inserts
    [where storable = storable and link = link and userId = userId and req = req and now = now,
     OF ne this]
  from h show "handleCreateUser storable link req now userId d =
              ([SetIsLoading True, SelectUserId (trim userId),
                InsertUser (no_user_columns
                    \<lparr>ui_id := Val (trim userId), ui_name := Val (trim userId),
                     ui_preferences := Val (JObject []), ui_usage_stats := Val (JObject [])\<rparr>),
                ToastSuccess (lit ''Welcome, '' @ userId @ lit ''! Your account has been created.''),
                OnUserCreated (trim userId),
                SetIsLoading False],
               d\<lparr>users := users d @
                 [\<lparr>u_id = Some (trim userId), u_email = None, u_name = Some (trim userId),
                   u_ai_provider = None, u_ai_api_key_encrypted = None, u_ebay_app_id = None,
                   u_ebay_cert_id = None, u_ebay_dev_id = None, u_ebay_refresh_token = None,
                   u_preferences = Some (JObject []), u_usage_stats = Some (JObject []),
                   u_created_at = Some now, u_updated_at = Some now\<rparr>]\<rparr>)"
    unfolding ins request_insert_user_def new_user_text_ok insert_new_user [OF absent]
    by simp
next
  assume h: "link (SelectUserId (trim userId)) \<noteq> Rejected
           \<and> link (InsertUser (no_user_columns
                    \<lparr>ui_id := Val (trim userId), ui_name := Val (trim userId),
                     ui_preferences := Val (JObject []), ui_usage_stats := Val (JObject [])\<rparr>)) = Answered
           \<and> (link (SelectUserId (trim userId)) = Errored
                \<or> Some (trim userId) \<notin> set (map u_id (users d)))
           \<and> \<not> storable (trim userId)"
  then have "link (SelectUserId (trim userId)) \<noteq> Rejected"
    and "link (SelectUserId (trim userId)) = Errored
           \<or> Some (trim userId) \<notin> set (map u_id (users d))" by blast+
  note ins = handleCreateUser_inserts
    [where storable = storable and link = link and userId = userId and req = req and now = now,
     OF ne this]
  from h show "handleCreateUser storable link req now userId d =
              ([SetIsLoading True, SelectUserId (trim userId),
                InsertUser (no_user_columns
                    \<lparr>ui_id := Val (trim userId), ui_name := Val (trim userId),
                     ui_preferences := Val (JObject []), ui_usage_stats := Val (JObject [])\<rparr>),
                ConsoleError (Postgres (InvalidText ''users'')),
                ToastError (lit ''Failed to create user account''),
                SetIsLoading False], d)"
    unfolding ins request_insert_user_def new_user_text_ok
    by simp
next
  assume h: "link (SelectUserId (trim userId)) = Answered
           \<and> link (InsertUser (no_user_columns
                    \<lparr>ui_id := Val (trim userId), ui_name := Val (trim userId),
                     ui_preferences := Val (JObject []), ui_usage_stats := Val (JObject [])\<rparr>)) = Answered
           \<and> (Some (trim userId) \<in> set (map u_id (users d)) \<or> storable (trim userId))"
  then have sel: "link (SelectUserId (trim userId)) = Answered"
    and ins: "link (InsertUser (no_user_columns
                    \<lparr>ui_id := Val (trim userId), ui_name := Val (trim userId),
                     ui_preferences := Val (JObject []), ui_usage_stats := Val (JObject [])\<rparr>)) = Answered"
    and known: "Some (trim userId) \<in> set (map u_id (users d)) \<or> storable (trim userId)"
    by blast+
  show "handleCreateUser storable link req' now' userId (snd (handleCreateUser storable link req now userId d)) =
              ([SetIsLoading True, SelectUserId (trim userId),
                ToastSuccess (lit ''Welcome back, '' @ userId @ lit ''!''),
                OnUserCreated (trim userId),
                SetIsLoading False], snd (handleCreateUser storable link req now userId d))"
    by (rule handleCreateUser_existing
          [where link = link and userId = userId,
           OF ne
              handleCreateUser_keeps_key
                [where storable = storable and link = link and req = req and now = now,
                 OF ne pk sel ins]
              handleCreateUser_registers
                [where storable = storable and link = link and req = req and now = now,
                 OF ne pk sel ins known]
              sel])
next
  assume "link (SelectUserId (trim userId)) = Rejected"
  with ne show "handleCreateUser storable link req now userId d =
              ([SetIsLoading True, SelectUserId (trim userId),
                ConsoleError Unknown,
                ToastError (lit ''Failed to create user account''),
                SetIsLoading False], d)"
    by (simp add: handleCreateUser_def)
next
  assume h: "link (SelectUserId (trim userId)) \<noteq> Rejected
           \<and> link (InsertUser (no_user_columns
                    \<lparr>ui_id := Val (trim userId), ui_name := Val (trim userId),
                     ui_preferences := Val (JObject []), ui_usage_stats := Val (JObject [])\<rparr>)) \<noteq> Answered
           \<and> (link (SelectUserId (trim userId)) = Errored
                \<or> Some (trim userId) \<notin> set (map u_id (users d)))"
  then have "link (SelectUserId (trim userId)) \<noteq> Rejected"
    and "link (SelectUserId (trim userId)) = Errored
           \<or> Some (trim userId) \<notin> set (map u_id (users d))" by blast+
  note ins = handleCreateUser_inserts
    [where storable = storable and link = link and userId = userId and req = req and now = now,
     OF ne this]
  from h show "handleCreateUser storable link req now userId d =
              ([SetIsLoading True, SelectUserId (trim userId),
                InsertUser (no_user_columns
                    \<lparr>ui_id := Val (trim userId), ui_name := Val (trim userId),
                     ui_preferences := Val (JObject []), ui_usage_stats := Val (JObject [])\<rparr>),
                ConsoleError Unknown,
                ToastError (lit ''Failed to create user account''),
                SetIsLoading False], d)"
    unfolding ins by simp
next
  assume h: "link (SelectUserId (trim userId)) = Errored
           \<and> link (InsertUser (no_user_columns
                    \<lparr>ui_id := Val (trim userId), ui_name := Val (trim userId),
                     ui_preferences := Val (JObject []), ui_usage_stats := Val (JObject [])\<rparr>)) = Answered
           \<and> Some (trim userId) \<in> set (map u_id (users d)) \<and> storable (trim userId)"
  then have known: "Some (trim userId) \<in> set (map u_id (users d))" by blast
  from h have "link (SelectUserId (trim userId)) \<noteq> Rejected"
    and "link (SelectUserId (trim userId)) = Errored
           \<or> Some (trim userId) \<notin> set (map u_id (users d))" by simp_all
  note ins = handleCreateUser_inserts
    [where storable = storable and link = link and userId = userId and req = req and now = now,
     OF ne this]
  from h show "handleCreateUser storable link req now userId d =
              ([SetIsLoading True, SelectUserId (trim userId),
                InsertUser (no_user_columns
                    \<lparr>ui_id := Val (trim userId), ui_name := Val (trim userId),
                     ui_preferences := Val (JObject []), ui_usage_stats := Val (JObject [])\<rparr>),
                ConsoleError (Postgres (UniqueViolation ''users_pkey'')),
                ToastError (lit ''Failed to create user account''),
                SetIsLoading False], d)"
    unfolding ins request_insert_user_def new_user_text_ok insert_known_user [OF known]
    by simp
qed

theorem create_or_fetch_user_witness:
  "trim (lit '' u1 '') \<noteq> []
   \<and> distinct (map u_id (users \<lparr>users = [], listings = [], ai_usage = []\<rparr>))
   \<and> answering (SelectUserId (trim (lit '' u1 ''))) = Answered
   \<and> Some (trim (lit '' u1 '')) \<notin> set (map u_id (users \<lparr>users = [], listings = [], ai_usage = []\<rparr>))
   \<and> nul_free (trim (lit '' u1 ''))
   \<and> snd (handleCreateUser nul_free answering None 7 (lit '' u1 '') \<lparr>users = [], listings = [], ai_usage = []\<rparr>)
       = \<lparr>users = [\<lparr>u_id = Some (lit ''u1''), u_email = None, u_name = Some (lit ''u1''),
                   u_ai_provider = None, u_ai_api_key_encrypted = None, u_ebay_app_id = None,
                   u_ebay_cert_id = None, u_ebay_dev_id = None, u_ebay_refresh_token = None,
                   u_preferences = Some (JObject []), u_usage_stats = Some (JObject []),
                   u_created_at = Some 7, u_updated_at = Some 7\<rparr>],
          listings = [], ai_usage = []\<rparr>
   \<and> handleCreateUser nul_free answering (Some (lit ''u2'')) 9 (lit '' u1 '')
        (snd (handleCreateUser nul_free answering None 7 (lit '' u1 '') \<lparr>users = [], listings = [], ai_usage = []\<rparr>))
       = ([SetIsLoading True, SelectUserId (lit ''u1''),
           ToastSuccess (lit ''Welcome back,  u1 !''),
           OnUserCreated (lit ''u1''),
           SetIsLoading False],
          \<lparr>users = [\<lparr>u_id = Some (lit ''u1''), u_email = None, u_name = Some (lit ''u1''),
                   u_ai_provider = None, u_ai_api_key_encrypted = None, u_ebay_app_id = None,
                   u_ebay_cert_id = None, u_ebay_dev_id = None, u_ebay_refresh_token = None,
                   u_preferences = Some (JObject []), u_usage_stats = Some (JObject []),
                   u_created_at = Some 7, u_updated_at = Some 7\<rparr>],
          listings = [], ai_usage = []\<rparr>)"
proof -
  have ne: "trim (lit '' u1 '') \<noteq> []" unfolding trim_example by (simp add: lit_def)
  have pk: "distinct (map u_id (users \<lparr>users = [], listings = [], ai_usage = []\<rparr>))" by simp
  have sel: "answering (SelectUserId (trim (lit '' u1 ''))) = Answered"
    by (simp add: answering_def)
  have ins: "answering (InsertUser (no_user_columns
                    \<lparr>ui_id := Val (trim (lit '' u1 '')), ui_name := Val (trim (lit '' u1 '')),
                     ui_preferences := Val (JObject []), ui_usage_stats := Val (JObject [])\<rparr>))
             = Answered"
    by (simp add: answering_def)
  have absent: "Some (trim (lit '' u1 '')) \<notin> set (map u_id (users \<lparr>users = [], listings = [], ai_usage = []\<rparr>))"
    by simp
  have ok: "nul_free (trim (lit '' u1 ''))" unfolding trim_example by (rule nul_free_u1)
  from sel ins absent ok
  have h2: "answering (SelectUserId (trim (lit '' u1 ''))) \<noteq> Rejected
      \<and> answering (InsertUser (no_user_columns
                    \<lparr>ui_id := Val (trim (lit '' u1 '')), ui_name := Val (trim (lit '' u1 '')),
                     ui_preferences := Val (JObject []), ui_usage_stats := Val (JObject [])\<rparr>))
             = Answered
      \<and> Some (trim (lit '' u1 '')) \<notin> set (map u_id (users \<lparr>users = [], listings = [], ai_usage = []\<rparr>))
      \<and> nul_free (trim (lit '' u1 ''))"
    by simp
  from sel ins ok
  have h4: "answering (SelectUserId (trim (lit '' u1 ''))) = Answered
      \<and> answering (InsertUser (no_user_columns
                    \<lparr>ui_id := Val (trim (lit '' u1 '')), ui_name := Val (trim (lit '' u1 '')),
                     ui_preferences := Val (JObject []), ui_usage_stats := Val (JObject [])\<rparr>))
             = Answered
      \<and> (Some (trim (lit '' u1 '')) \<in> set (map u_id (users \<lparr>users = [], listings = [], ai_usage = []\<rparr>))
          \<or> nul_free (trim (lit '' u1 '')))"
    by blast
  note inst = create_or_fetch_user
    [where storable = nul_free and link = answering and req = None and now = 7
       and req' = "Some (lit ''u2'')" and now' = 9, OF ne pk]
  note created = inst [THEN conjunct2, THEN conjunct1, THEN mp, OF h2]
  note again = inst [THEN conjunct2, THEN conjunct2, THEN conjunct2, THEN conjunct1, THEN mp, OF h4]
  have 1: "snd (handleCreateUser nul_free answering None 7 (lit '' u1 '') \<lparr>users = [], listings = [], ai_usage = []\<rparr>)
       = \<lparr>users = [\<lparr>u_id = Some (lit ''u1''), u_email = None, u_name = Some (lit ''u1''),
                   u_ai_provider = None, u_ai_api_key_encrypted = None, u_ebay_app_id = None,
                   u_ebay_cert_id = None, u_ebay_dev_id = None, u_ebay_refresh_token = None,
                   u_preferences = Some (JObject []), u_usage_stats = Some (JObject []),
                   u_created_at = Some 7, u_updated_at = Some 7\<rparr>],
          listings = [], ai_usage = []\<rparr>"
    unfolding created trim_example by simp
  have 2: "lit ''Welcome back, '' @ lit '' u1 '' @ lit ''!'' = lit ''Welcome back,  u1 !''"
    by (simp add: lit_def)
  from again
  have 3: "handleCreateUser nul_free answering (Some (lit ''u2'')) 9 (lit '' u1 '')
        \<lparr>users = [\<lparr>u_id = Some (lit ''u1''), u_email = None, u_name = Some (lit ''u1''),
                   u_ai_provider = None, u_ai_api_key_encrypted = None, u_ebay_app_id = None,
                   u_ebay_cert_id = None, u_ebay_dev_id = None, u_ebay_refresh_token = None,
                   u_preferences = Some (JObject []), u_usage_stats = Some (JObject []),
                   u_created_at = Some 7, u_updated_at = Some 7\<rparr>],
          listings = [], ai_usage = []\<rparr>
       = ([SetIsLoading True, SelectUserId (lit ''u1''),
           ToastSuccess (lit ''Welcome back,  u1 !''),
           OnUserCreated (lit ''u1''),
           SetIsLoading False],
          \<lparr>users = [\<lparr>u_id = Some (lit ''u1''), u_email = None, u_name = Some (lit ''u1''),
                   u_ai_provider = None, u_ai_api_key_encrypted = None, u_ebay_app_id = None,
                   u_ebay_cert_id = None, u_ebay_dev_id = None, u_ebay_refresh_token = None,
                   u_preferences = Some (JObject []), u_usage_stats = Some (JObject []),
                   u_created_at = Some 7, u_updated_at = Some 7\<rparr>],
          listings = [], ai_usage = []\<rparr>)"
    unfolding 1 2 trim_example .
  from ne pk sel absent ok 3 show ?thesis
    by (simp only: 1 simp_thms)
qed

text \<open>
  C3, as stated, at the identifier of two spaces: no row has that identifier, and
  the call inserts nothing.
\<close>

theorem blank_identifier_counterexample:
  "Some (lit ''  '') \<notin> set (map u_id (users \<lparr>users = [], listings = [], ai_usage = []\<rparr>))
   \<and> handleCreateUser nul_free answering None 7 (lit ''  '') \<lparr>users = [], listings = [], ai_usage = []\<rparr>
       = ([ToastError (lit ''Please enter a user ID'')], \<lparr>users = [], listings = [], ai_usage = []\<rparr>)"
  by (simp add: handleCreateUser_def trim_blank)







section \<open>Properties of the schema\<close>

lemma rls_select_listings [simp]: "rls_select listings_policy req wh rows = filter wh rows"
  by (simp add: rls_select_def listings_policy_def)

lemma rls_select_ai_usage [simp]: "rls_select ai_usage_policy req wh rows = filter wh rows"
  by (simp add: rls_select_def ai_usage_policy_def)

lemma fold_max_bound:
  "(m::nat) \<le> fold (\<lambda>x m. case x of None \<Rightarrow> m | Some n \<Rightarrow> max n m) xs m
   \<and> (\<forall>n. Some n \<in> set xs \<longrightarrow> n \<le> fold (\<lambda>x m. case x of None \<Rightarrow> m | Some n \<Rightarrow> max n m) xs m)"
proof (induction xs arbitrary: m)
  case Nil
  show ?case by simp
next
  case (Cons x xs)
  show ?case
  proof (cases x)
    case None
    with Cons.IH [of m] show ?thesis by simp
  next
    case (Some k)
    from Cons.IH [of "max k m"] Some show ?thesis
      by (auto simp: max_def split: if_splits intro: order_trans)
  qed
qed

lemma gen_random_uuid_fresh: "Some (gen_random_uuid taken) \<notin> set taken"
proof
  assume "Some (gen_random_uuid taken) \<in> set taken"
  with fold_max_bound [of 0 taken]
  have "gen_random_uuid taken \<le> fold (\<lambda>x m. case x of None \<Rightarrow> m | Some n \<Rightarrow> max n m) taken 0"
    by blast
  then show False by (simp add: gen_random_uuid_def)
qed

lemma set_selectListingsByUser:
  "set (selectListingsByUser req u d) = {r \<in> set (listings d). l_user_id r = Some u}"
  by (auto simp: selectListingsByUser_def Let_def)

lemma delete_user_rows_users:
  "users (delete_user_rows req u d) = filter (\<lambda>r. u_id r \<noteq> Some u) (users d)"
  by (simp add: delete_user_rows_def Let_def)

lemma deleted_ids:
  "set (map u_id (filter (\<lambda>r. u_id r = Some u) rows))
     = (if Some u \<in> set (map u_id rows) then {Some u} else {})"
  by (auto simp: image_iff)

lemma delete_user_rows_listings:
  "listings (delete_user_rows req u d) =
     (if Some u \<in> set (map u_id (users d))
      then filter (\<lambda>r. l_user_id r \<noteq> Some u) (listings d) else listings d)"
proof -
  have "listings (delete_user_rows req u d) =
          filter (\<lambda>r. l_user_id r = None
                       \<or> l_user_id r \<notin> set (map u_id (filter (\<lambda>r. u_id r = Some u) (users d))))
            (listings d)"
    by (simp add: delete_user_rows_def Let_def)
  also have "\<dots> = (if Some u \<in> set (map u_id (users d))
      then filter (\<lambda>r. l_user_id r \<noteq> Some u) (listings d) else listings d)"
    unfolding deleted_ids by (auto intro: filter_cong)
  finally show ?thesis .
qed

lemma delete_user_rows_ai_usage:
  "ai_usage (delete_user_rows req u d) =
     (if Some u \<in> set (map u_id (users d))
      then filter (\<lambda>r. a_user_id r \<noteq> Some u) (ai_usage d) else ai_usage d)"
proof -
  have "ai_usage (delete_user_rows req u d) =
          filter (\<lambda>r. a_user_id r = None
                       \<or> a_user_id r \<notin> set (map u_id (filter (\<lambda>r. u_id r = Some u) (users d))))
            (ai_usage d)"
    by (simp add: delete_user_rows_def Let_def)
  also have "\<dots> = (if Some u \<in> set (map u_id (users d))
      then filter (\<lambda>r. a_user_id r \<noteq> Some u) (ai_usage d) else ai_usage d)"
    unfolding deleted_ids by (auto intro: filter_cong)
  finally show ?thesis .
qed

lemma no_user_iff:
  "(filter (\<lambda>r. u_id r = Some u) us = []) = (Some u \<notin> set (map u_id us))"
  by (induction us) auto

lemma deleteUser_Inr:
  "deleteUser req u d = Inr d' \<longleftrightarrow>
     Some u \<in> set (map u_id (users d)) \<and> d' = delete_user_rows req u d"
  unfolding deleteUser_def rls_select_def users_policy_def simp_thms no_user_iff
  by auto

lemma ids_after_delete:
  "set (map u_id (filter (\<lambda>r. u_id r \<noteq> Some u) us)) = set (map u_id us) - {Some u}"
  by auto

lemma delete_user_rows_fk:
  assumes "fk_consistent d"
  shows "fk_consistent (delete_user_rows req u d)"
proof -
  let ?ids = "set (map u_id (users d))"
  from assms have l: "\<forall>r\<in>set (listings d). l_user_id r = None \<or> l_user_id r \<in> ?ids"
    and a: "\<forall>r\<in>set (ai_usage d). a_user_id r = None \<or> a_user_id r \<in> ?ids"
    by (simp_all add: fk_consistent_def list_all_iff)
  show ?thesis
  proof (cases "Some u \<in> ?ids")
    case True
    from l have "\<forall>r\<in>set (filter (\<lambda>r. l_user_id r \<noteq> Some u) (listings d)).
                   l_user_id r = None \<or> l_user_id r \<in> ?ids - {Some u}"
      by auto
    moreover from a have "\<forall>r\<in>set (filter (\<lambda>r. a_user_id r \<noteq> Some u) (ai_usage d)).
                   a_user_id r = None \<or> a_user_id r \<in> ?ids - {Some u}"
      by auto
    ultimately show ?thesis
      unfolding fk_consistent_def delete_user_rows_users delete_user_rows_listings
        delete_user_rows_ai_usage ids_after_delete list_all_iff if_P [OF True]
      by blast
  next
    case False
    then have "?ids - {Some u} = ?ids" by blast
    with l a show ?thesis
      unfolding fk_consistent_def delete_user_rows_users delete_user_rows_listings
        delete_user_rows_ai_usage ids_after_delete list_all_iff if_not_P [OF False]
      by simp
  qed
qed

lemma sample_users_ids: "map u_id (users sample_db) = [Some (lit ''u1''), Some (lit ''u2'')]"
  by (simp add: sample_db_def user_of_insert_def no_user_columns_def resolve_def)

lemma sample_listing_owners:
  "map l_user_id (listings sample_db) = [Some (lit ''u1''), Some (lit ''u2''), None]"
  by (simp add: sample_db_def listing_of_insert_def no_listing_columns_def resolve_def)

lemma sample_usage_owners:
  "map a_user_id (ai_usage sample_db) = [Some (lit ''u1''), Some (lit ''u2''), None]"
  by (simp add: sample_db_def ai_usage_of_insert_def no_ai_usage_columns_def resolve_def)

lemma filter_by_key_Nil: "(filter (\<lambda>r. f r = k) rows = []) = (k \<notin> set (map f rows))"
  by (induction rows) auto

text \<open>
  C4. After a user deletion that succeeds, no listing and no usage record of that
  user is left: the listing query of the dashboard and the usage query return
  nothing for the identifier, whoever asks. The rows of every other user are
  untouched, and referential integrity is kept.
\<close>

theorem delete_user_cascades:
  assumes "deleteUser req u d = Inr d'"
  shows "selectListingsByUser req' u d' = []
         \<and> listAIUsage req' u d' = []
         \<and> filter (\<lambda>r. l_user_id r = Some u) (listings d') = []
         \<and> filter (\<lambda>r. a_user_id r = Some u) (ai_usage d') = []
         \<and> Some u \<notin> set (map u_id (users d'))
         \<and> (v \<noteq> u \<longrightarrow> selectListingsByUser req' v d' = selectListingsByUser req' v d
                        \<and> listAIUsage req' v d' = listAIUsage req' v d)
         \<and> (fk_consistent d \<longrightarrow> fk_consistent d')"
proof -
  from assms have ex: "Some u \<in> set (map u_id (users d))" and d': "d' = delete_user_rows req u d"
    by (simp_all add: deleteUser_Inr)
  have l: "filter (\<lambda>r. l_user_id r = Some u) (listings d') = []"
    using ex by (simp add: d' delete_user_rows_listings filter_empty_conv)
  have a: "filter (\<lambda>r. a_user_id r = Some u) (ai_usage d') = []"
    using ex by (simp add: d' delete_user_rows_ai_usage filter_empty_conv)
  have lv: "filter (\<lambda>r. l_user_id r = Some v) (listings d') = filter (\<lambda>r. l_user_id r = Some v) (listings d)"
    if "v \<noteq> u"
    using that ex by (auto simp: d' delete_user_rows_listings intro: filter_cong)
  have av: "filter (\<lambda>r. a_user_id r = Some v) (ai_usage d') = filter (\<lambda>r. a_user_id r = Some v) (ai_usage d)"
    if "v \<noteq> u"
    using that ex by (auto simp: d' delete_user_rows_ai_usage intro: filter_cong)
  have u: "Some u \<notin> set (map u_id (users d'))"
    by (auto simp: d' delete_user_rows_users)
  from l a u lv av delete_user_rows_fk [of d req u] show ?thesis
    by (simp add: selectListingsByUser_def listAIUsage_def Let_def d')
qed

theorem delete_user_cascades_witness:
  "deleteUser None (lit ''u1'') sample_db = Inr (delete_user_rows None (lit ''u1'') sample_db)
   \<and> selectListingsByUser None (lit ''u1'') sample_db \<noteq> []
   \<and> selectListingsByUser (Some (lit ''u2'')) (lit ''u1'') (delete_user_rows None (lit ''u1'') sample_db) = []
   \<and> listAIUsage (Some (lit ''u2'')) (lit ''u1'') (delete_user_rows None (lit ''u1'') sample_db) = []"
proof -
  have h: "deleteUser None (lit ''u1'') sample_db = Inr (delete_user_rows None (lit ''u1'') sample_db)"
    by (simp add: deleteUser_def filter_by_key_Nil sample_users_ids)
  have n: "selectListingsByUser None (lit ''u1'') sample_db \<noteq> []"
    by (simp add: selectListingsByUser_def Let_def sample_db_def listing_of_insert_def
          no_listing_columns_def resolve_def lit_def)
  from delete_user_cascades [OF h, of "Some (lit ''u2'')"] h n show ?thesis
    by blast
qed

lemma insert_listing_accepts:
  assumes "li_id p = Omitted" and "li_title p = Val t"
      and "resolve None (li_user_id p) = None
           \<or> resolve None (li_user_id p) \<in> set (map u_id (users d))"
  shows "insert_listing req now p d =
           Inr (listing_of_insert now (gen_random_uuid (map l_id (listings d))) p,
                d\<lparr>listings := listings d
                     @ [listing_of_insert now (gen_random_uuid (map l_id (listings d))) p]\<rparr>)"
proof -
  let ?row = "listing_of_insert now (gen_random_uuid (map l_id (listings d))) p"
  have i: "l_id ?row = Some (gen_random_uuid (map l_id (listings d)))"
    and t: "l_title ?row = Some t"
    and u: "l_user_id ?row = resolve None (li_user_id p)"
    using assms(1,2) by (simp_all add: listing_of_insert_def resolve_def)
  have f: "l_id ?row \<notin> set (map l_id (listings d))"
    unfolding i by (rule gen_random_uuid_fresh)
  from assms(3) have k: "\<not> (l_user_id ?row \<noteq> None \<and> l_user_id ?row \<notin> set (map u_id (users d)))"
    unfolding u by auto
  show ?thesis
    unfolding insert_listing_def Let_def
    using f k by (simp add: listings_policy_def i t)
qed

lemma insert_ai_usage_accepts:
  assumes "ai_id q = Omitted" and "ai_provider q = Val pr"
      and "resolve None (ai_user_id q) = None
           \<or> resolve None (ai_user_id q) \<in> set (map u_id (users d))"
  shows "insert_ai_usage req now q d =
           Inr (ai_usage_of_insert now (gen_random_uuid (map a_id (ai_usage d))) q,
                d\<lparr>ai_usage := ai_usage d
                     @ [ai_usage_of_insert now (gen_random_uuid (map a_id (ai_usage d))) q]\<rparr>)"
proof -
  let ?row = "ai_usage_of_insert now (gen_random_uuid (map a_id (ai_usage d))) q"
  have i: "a_id ?row = Some (gen_random_uuid (map a_id (ai_usage d)))"
    and t: "a_provider ?row = Some pr"
    and u: "a_user_id ?row = resolve None (ai_user_id q)"
    using assms(1,2) by (simp_all add: ai_usage_of_insert_def resolve_def)
  have f: "a_id ?row \<notin> set (map a_id (ai_usage d))"
    unfolding i by (rule gen_random_uuid_fresh)
  from assms(3) have k: "\<not> (a_user_id ?row \<noteq> None \<and> a_user_id ?row \<notin> set (map u_id (users d)))"
    unfolding u by auto
  show ?thesis
    unfolding insert_ai_usage_def Let_def
    using f k by (simp add: ai_usage_policy_def i t)
qed

lemma null_listing_unreachable:
  assumes "r \<in> set (listings d)" and "l_user_id r = None"
  shows "r \<notin> set (selectListingsByUser req u d) \<and> r \<in> set (listings (delete_user_rows req u d))"
  using assms by (simp add: set_selectListingsByUser delete_user_rows_listings)

lemma null_usage_unreachable:
  assumes "r \<in> set (ai_usage d)" and "a_user_id r = None"
  shows "r \<notin> set (listAIUsage req u d) \<and> r \<in> set (ai_usage (delete_user_rows req u d))"
  using assms by (simp add: listAIUsage_def delete_user_rows_ai_usage)

text \<open>
  C10. \<^verbatim>\<open>user_id\<close> is nullable in both tables: an insert with no user (and the
  required title, or provider) is accepted. A row without a user is in no user's
  listing or usage query and survives the cascade of every user deletion.
\<close>

theorem null_user_rows:
  assumes "li_id p = Omitted" and "li_user_id p = Null \<or> li_user_id p = Omitted"
      and "li_title p = Val t"
      and "ai_id q = Omitted" and "ai_user_id q = Null \<or> ai_user_id q = Omitted"
      and "ai_provider q = Val pr"
  shows "(\<exists>row. insert_listing req now p d = Inr (row, d\<lparr>listings := listings d @ [row]\<rparr>)
              \<and> l_user_id row = None
              \<and> (\<forall>u. row \<notin> set (selectListingsByUser req' u (d\<lparr>listings := listings d @ [row]\<rparr>)))
              \<and> (\<forall>u. row \<in> set (listings
                             (delete_user_rows req' u (d\<lparr>listings := listings d @ [row]\<rparr>)))))
         \<and> (\<exists>row. insert_ai_usage req now q d = Inr (row, d\<lparr>ai_usage := ai_usage d @ [row]\<rparr>)
              \<and> a_user_id row = None
              \<and> (\<forall>u. row \<notin> set (listAIUsage req' u (d\<lparr>ai_usage := ai_usage d @ [row]\<rparr>)))
              \<and> (\<forall>u. row \<in> set (ai_usage
                             (delete_user_rows req' u (d\<lparr>ai_usage := ai_usage d @ [row]\<rparr>)))))
         \<and> (\<forall>r u. r \<in> set (listings d) \<and> l_user_id r = None \<longrightarrow>
               r \<notin> set (selectListingsByUser req' u d)
               \<and> r \<in> set (listings (delete_user_rows req' u d)))
         \<and> (\<forall>r u. r \<in> set (ai_usage d) \<and> a_user_id r = None \<longrightarrow>
               r \<notin> set (listAIUsage req' u d)
               \<and> r \<in> set (ai_usage (delete_user_rows req' u d)))"
proof (intro conjI)
  let ?row = "listing_of_insert now (gen_random_uuid (map l_id (listings d))) p"
  from assms(2) have n: "resolve None (li_user_id p) = None" by (auto simp: resolve_def)
  then have u: "l_user_id ?row = None" by (simp add: listing_of_insert_def)
  have "insert_listing req now p d = Inr (?row, d\<lparr>listings := listings d @ [?row]\<rparr>)"
    using assms(1,3) n by (simp add: insert_listing_accepts)
  moreover have "\<forall>u. ?row \<notin> set (selectListingsByUser req' u (d\<lparr>listings := listings d @ [?row]\<rparr>))"
    using u by (simp add: null_listing_unreachable)
  moreover have "\<forall>u. ?row \<in> set (listings (delete_user_rows req' u (d\<lparr>listings := listings d @ [?row]\<rparr>)))"
    using u by (simp add: null_listing_unreachable)
  ultimately show "\<exists>row. insert_listing req now p d = Inr (row, d\<lparr>listings := listings d @ [row]\<rparr>)
              \<and> l_user_id row = None
              \<and> (\<forall>u. row \<notin> set (selectListingsByUser req' u (d\<lparr>listings := listings d @ [row]\<rparr>)))
              \<and> (\<forall>u. row \<in> set (listings
                             (delete_user_rows req' u (d\<lparr>listings := listings d @ [row]\<rparr>))))"
    using u by blast
next
  let ?row = "ai_usage_of_insert now (gen_random_uuid (map a_id (ai_usage d))) q"
  from assms(5) have n: "resolve None (ai_user_id q) = None" by (auto simp: resolve_def)
  then have u: "a_user_id ?row = None" by (simp add: ai_usage_of_insert_def)
  have "insert_ai_usage req now q d = Inr (?row, d\<lparr>ai_usage := ai_usage d @ [?row]\<rparr>)"
    using assms(4,6) n by (simp add: insert_ai_usage_accepts)
  moreover have "\<forall>u. ?row \<notin> set (listAIUsage req' u (d\<lparr>ai_usage := ai_usage d @ [?row]\<rparr>))"
    using u by (simp add: null_usage_unreachable)
  moreover have "\<forall>u. ?row \<in> set (ai_usage (delete_user_rows req' u (d\<lparr>ai_usage := ai_usage d @ [?row]\<rparr>)))"
    using u by (simp add: null_usage_unreachable)
  ultimately show "\<exists>row. insert_ai_usage req now q d = Inr (row, d\<lparr>ai_usage := ai_usage d @ [row]\<rparr>)
              \<and> a_user_id row = None
              \<and> (\<forall>u. row \<notin> set (listAIUsage req' u (d\<lparr>ai_usage := ai_usage d @ [row]\<rparr>)))
              \<and> (\<forall>u. row \<in> set (ai_usage
                             (delete_user_rows req' u (d\<lparr>ai_usage := ai_usage d @ [row]\<rparr>))))"
    using u by blast
next
  show "\<forall>r u. r \<in> set (listings d) \<and> l_user_id r = None \<longrightarrow>
               r \<notin> set (selectListingsByUser req' u d)
               \<and> r \<in> set (listings (delete_user_rows req' u d))"
    using null_listing_unreachable by blast
next
  show "\<forall>r u. r \<in> set (ai_usage d) \<and> a_user_id r = None \<longrightarrow>
               r \<notin> set (listAIUsage req' u d)
               \<and> r \<in> set (ai_usage (delete_user_rows req' u d))"
    using null_usage_unreachable by blast
qed

theorem null_user_rows_witness:
  "li_id (no_listing_columns\<lparr>li_title := Val (lit ''Orphan'')\<rparr>) = Omitted
   \<and> (li_user_id (no_listing_columns\<lparr>li_title := Val (lit ''Orphan'')\<rparr>) = Null
        \<or> li_user_id (no_listing_columns\<lparr>li_title := Val (lit ''Orphan'')\<rparr>) = Omitted)
   \<and> li_title (no_listing_columns\<lparr>li_title := Val (lit ''Orphan'')\<rparr>) = Val (lit ''Orphan'')
   \<and> ai_id (no_ai_usage_columns\<lparr>ai_user_id := Null, ai_provider := Val (lit ''claude'')\<rparr>) = Omitted
   \<and> (ai_user_id (no_ai_usage_columns\<lparr>ai_user_id := Null, ai_provider := Val (lit ''claude'')\<rparr>) = Null
        \<or> ai_user_id (no_ai_usage_columns\<lparr>ai_user_id := Null, ai_provider := Val (lit ''claude'')\<rparr>) = Omitted)
   \<and> ai_provider (no_ai_usage_columns\<lparr>ai_user_id := Null, ai_provider := Val (lit ''claude'')\<rparr>)
        = Val (lit ''claude'')
   \<and> (\<exists>row. insert_listing None 9 (no_listing_columns\<lparr>li_title := Val (lit ''Orphan'')\<rparr>) sample_db
              = Inr (row, sample_db\<lparr>listings := listings sample_db @ [row]\<rparr>)
            \<and> l_user_id row = None
            \<and> row \<notin> set (selectListingsByUser None (lit ''u1'')
                           (sample_db\<lparr>listings := listings sample_db @ [row]\<rparr>))
            \<and> row \<in> set (listings (delete_user_rows None (lit ''u1'')
                           (sample_db\<lparr>listings := listings sample_db @ [row]\<rparr>))))
   \<and> (\<exists>row. insert_ai_usage None 9
                (no_ai_usage_columns\<lparr>ai_user_id := Null, ai_provider := Val (lit ''claude'')\<rparr>) sample_db
              = Inr (row, sample_db\<lparr>ai_usage := ai_usage sample_db @ [row]\<rparr>)
            \<and> a_user_id row = None
            \<and> row \<notin> set (listAIUsage None (lit ''u1'')
                           (sample_db\<lparr>ai_usage := ai_usage sample_db @ [row]\<rparr>))
            \<and> row \<in> set (ai_usage (delete_user_rows None (lit ''u1'')
                           (sample_db\<lparr>ai_usage := ai_usage sample_db @ [row]\<rparr>))))"
proof -
  have 1: "li_id (no_listing_columns\<lparr>li_title := Val (lit ''Orphan'')\<rparr>) = Omitted"
    and 2: "li_user_id (no_listing_columns\<lparr>li_title := Val (lit ''Orphan'')\<rparr>) = Null
        \<or> li_user_id (no_listing_columns\<lparr>li_title := Val (lit ''Orphan'')\<rparr>) = Omitted"
    and 3: "li_title (no_listing_columns\<lparr>li_title := Val (lit ''Orphan'')\<rparr>) = Val (lit ''Orphan'')"
    by (simp_all add: no_listing_columns_def)
  have 4: "ai_id (no_ai_usage_columns\<lparr>ai_user_id := Null, ai_provider := Val (lit ''claude'')\<rparr>) = Omitted"
    and 5: "ai_user_id (no_ai_usage_columns\<lparr>ai_user_id := Null, ai_provider := Val (lit ''claude'')\<rparr>) = Null
        \<or> ai_user_id (no_ai_usage_columns\<lparr>ai_user_id := Null, ai_provider := Val (lit ''claude'')\<rparr>) = Omitted"
    and 6: "ai_provider (no_ai_usage_columns\<lparr>ai_user_id := Null, ai_provider := Val (lit ''claude'')\<rparr>)
        = Val (lit ''claude'')"
    by (simp_all add: no_ai_usage_columns_def)
  from null_user_rows [OF 1 2 3 4 5 6, of None 9 sample_db None] 1 2 3 4 5 6
  show ?thesis by blast
qed

text \<open>
  C6. Each of the three policies holds of every requester and every row. So under
  row-level security a select, delete, update or insert does what it would do with
  no policy at all, every operation of the program gives the same result for any
  two requesters, and a requester reads all rows of any user \<open>w\<close> and can delete
  them and the user row.
\<close>

theorem policies_ignore_requester:
  "users_policy u r1 \<and> listings_policy u r2 \<and> ai_usage_policy u r3
   \<and> rls_select listings_policy u wh ls = filter wh ls
   \<and> rls_delete listings_policy u wh ls = filter (\<lambda>r. \<not> wh r) ls
   \<and> rls_update listings_policy u wh upd ls = Inr (map (\<lambda>r. if wh r then upd r else r) ls)
   \<and> rls_insert listings_policy u r2 ls = Inr (ls @ [r2])
   \<and> rls_select users_policy u wh1 us = filter wh1 us
   \<and> rls_delete users_policy u wh1 us = filter (\<lambda>r. \<not> wh1 r) us
   \<and> rls_update users_policy u wh1 upd1 us = Inr (map (\<lambda>r. if wh1 r then upd1 r else r) us)
   \<and> rls_insert users_policy u r1 us = Inr (us @ [r1])
   \<and> rls_select ai_usage_policy u wh3 as = filter wh3 as
   \<and> rls_delete ai_usage_policy u wh3 as = filter (\<lambda>r. \<not> wh3 r) as
   \<and> rls_update ai_usage_policy u wh3 upd3 as = Inr (map (\<lambda>r. if wh3 r then upd3 r else r) as)
   \<and> rls_insert ai_usage_policy u r3 as = Inr (as @ [r3])
   \<and> handleCreateUser storable link u now i d = handleCreateUser storable link v now i d
   \<and> loadListings u w d = loadListings v w d
   \<and> listAIUsage u w d = listAIUsage v w d
   \<and> deleteUser u w d = deleteUser v w d
   \<and> insert_user u now p1 d = insert_user v now p1 d
   \<and> insert_listing u now p2 d = insert_listing v now p2 d
   \<and> insert_ai_usage u now p3 d = insert_ai_usage v now p3 d
   \<and> set (selectListingsByUser u w d) = {r \<in> set (listings d). l_user_id r = Some w}
   \<and> Some w \<notin> set (map u_id (users (delete_user_rows u w d)))
   \<and> filter (\<lambda>r. l_user_id r = Some w) (rls_delete listings_policy u (\<lambda>r. l_user_id r = Some w) (listings d)) = []"
proof -
  have pol: "users_policy u = users_policy v" "listings_policy u = listings_policy v"
    "ai_usage_policy u = ai_usage_policy v"
    by (simp_all add: users_policy_def listings_policy_def ai_usage_policy_def fun_eq_iff)
  have 1: "users_policy u r1 \<and> listings_policy u r2 \<and> ai_usage_policy u r3"
    by (simp add: users_policy_def listings_policy_def ai_usage_policy_def)
  have 2: "rls_select listings_policy u wh ls = filter wh ls
   \<and> rls_delete listings_policy u wh ls = filter (\<lambda>r. \<not> wh r) ls
   \<and> rls_update listings_policy u wh upd ls = Inr (map (\<lambda>r. if wh r then upd r else r) ls)
   \<and> rls_insert listings_policy u r2 ls = Inr (ls @ [r2])"
    by (simp add: rls_select_def rls_delete_def rls_update_def rls_insert_def listings_policy_def
          list_ex_iff)
  have 3: "rls_select users_policy u wh1 us = filter wh1 us
   \<and> rls_delete users_policy u wh1 us = filter (\<lambda>r. \<not> wh1 r) us
   \<and> rls_update users_policy u wh1 upd1 us = Inr (map (\<lambda>r. if wh1 r then upd1 r else r) us)
   \<and> rls_insert users_policy u r1 us = Inr (us @ [r1])"
    by (simp add: rls_select_def rls_delete_def rls_update_def rls_insert_def users_policy_def
          list_ex_iff)
  have 4: "rls_select ai_usage_policy u wh3 as = filter wh3 as
   \<and> rls_delete ai_usage_policy u wh3 as = filter (\<lambda>r. \<not> wh3 r) as
   \<and> rls_update ai_usage_policy u wh3 upd3 as = Inr (map (\<lambda>r. if wh3 r then upd3 r else r) as)
   \<and> rls_insert ai_usage_policy u r3 as = Inr (as @ [r3])"
    by (simp add: rls_select_def rls_delete_def rls_update_def rls_insert_def ai_usage_policy_def
          list_ex_iff)
  have iu: "insert_user u t p e = insert_user v t p e" for t p e
    by (simp add: insert_user_def pol)
  have 5: "handleCreateUser storable link u now i d = handleCreateUser storable link v now i d"
    unfolding handleCreateUser_def request_insert_user_def rls_select_users iu by (rule refl)
  have 6: "loadListings u w d = loadListings v w d \<and> listAIUsage u w d = listAIUsage v w d
     \<and> deleteUser u w d = deleteUser v w d"
    by (simp add: loadListings_def selectListingsByUser_def listAIUsage_def deleteUser_def
          delete_user_rows_def)
  have 7: "insert_user u now p1 d = insert_user v now p1 d
   \<and> insert_listing u now p2 d = insert_listing v now p2 d
   \<and> insert_ai_usage u now p3 d = insert_ai_usage v now p3 d"
    by (simp add: insert_user_def insert_listing_def insert_ai_usage_def pol)
  have 8: "set (selectListingsByUser u w d) = {r \<in> set (listings d). l_user_id r = Some w}"
    by (rule set_selectListingsByUser)
  have 9: "Some w \<notin> set (map u_id (users (delete_user_rows u w d)))"
    by (auto simp: delete_user_rows_users)
  have 10: "filter (\<lambda>r. l_user_id r = Some w) (rls_delete listings_policy u (\<lambda>r. l_user_id r = Some w) (listings d)) = []"
    by (simp add: rls_delete_def listings_policy_def filter_empty_conv)
  from 1 2 3 4 5 6 7 8 9 10 show ?thesis by (simp only: simp_thms)
qed

section \<open>Properties of the gateway and the listing workflow\<close>

























end
